theory Spec2Isabelle
  imports Main "HOL-Library.Word"
begin

section \<open>The Move execution model shared by the four modules\<close>

text \<open>
  The on-ledger core of the repository is four Move modules published under the named
  address \<open>@voting\<close>: \<open>voter_registry\<close>, \<open>encrypted_ballot\<close>, \<open>bulletin_board\<close> and
  \<open>tally_validator\<close>. Every entry function is one transaction: it either returns the new
  global storage or aborts, and an abort leaves the storage as it was.

  \<^item> \<open>u64\<close> is a 64-bit word; Move's \<open>+\<close> aborts on overflow (\<open>add_u64\<close>).
  \<^item> \<open>vector<u8>\<close> is a list of bytes, \<open>address\<close> a 256-bit word.
  \<^item> \<open>Table<K, V>\<close> is a map \<open>K \<rightharpoonup> V\<close>; \<open>table::add\<close> aborts on a key that is present,
    \<open>table::borrow\<close> on one that is absent, \<open>table::upsert\<close> never.
  \<^item> Global storage holds at most one resource of each type per address.
    \<open>move_to\<close> aborts when the signer's address already holds one, \<open>borrow_global\<close>
    when the address holds none.
  \<^item> The value of the named address \<open>@voting\<close> is fixed at publication
    (\<open>--named-addresses voting=...\<close>); every function takes it as its first parameter.
  \<^item> \<open>timestamp::now_seconds()\<close> is the parameter \<open>now\<close> of the transaction.
  \<^item> \<open>event::emit\<close> appends to the log \<open>emitted\<close>.
\<close>

type_synonym u64 = "64 word"
type_synonym bytes = "8 word list"
type_synonym address = "256 word"

datatype location = Voter_registry | Tally_validator | Encrypted_ballot | Bulletin_board

datatype vm_status =
    ABORTED location u64
  | ARITHMETIC_ERROR
  | MISSING_DATA
  | RESOURCE_ALREADY_EXISTS
  | TABLE_EALREADY_EXISTS
  | TABLE_ENOT_FOUND

definition add_u64 :: "u64 \<Rightarrow> u64 \<Rightarrow> vm_status + u64" where
  "add_u64 a b = (if unat a + unat b < 2 ^ 64 then Inr (a + b) else Inl ARITHMETIC_ERROR)"

definition table_contains :: "('k \<rightharpoonup> 'v) \<Rightarrow> 'k \<Rightarrow> bool" where
  "table_contains t k = (t k \<noteq> None)"

definition table_add :: "('k \<rightharpoonup> 'v) \<Rightarrow> 'k \<Rightarrow> 'v \<Rightarrow> vm_status + ('k \<rightharpoonup> 'v)" where
  "table_add t k v = (if table_contains t k then Inl TABLE_EALREADY_EXISTS else Inr (t(k \<mapsto> v)))"

definition table_upsert :: "('k \<rightharpoonup> 'v) \<Rightarrow> 'k \<Rightarrow> 'v \<Rightarrow> ('k \<rightharpoonup> 'v)" where
  "table_upsert t k v = t(k \<mapsto> v)"

definition table_borrow :: "('k \<rightharpoonup> 'v) \<Rightarrow> 'k \<Rightarrow> vm_status + 'v" where
  "table_borrow t k = (case t k of None \<Rightarrow> Inl TABLE_ENOT_FOUND | Some v \<Rightarrow> Inr v)"

subsection \<open>Resources and events\<close>

text \<open>
  Field names are the source's. Where two structs share a field name the later one carries
  its module's initials: \<open>admin\<close> (Registry), \<open>tv_admin\<close> (TallyRecord), \<open>eb_admin\<close>
  (BallotBox); \<open>vote_count\<close> (CandidateResult), \<open>eb_vote_count\<close> (BallotBox);
  \<open>election_id\<close> (TallyRecord), \<open>bb_election_id\<close> (BulletinBoard); \<open>merkle_root\<close>
  (BallotBox), \<open>bb_merkle_root\<close> (BulletinBoard).
\<close>

record VoterRegistration =
  epic_hash :: bytes
  aadhaar_hash :: bytes
  biometric_hash :: bytes
  registered_at :: u64
  is_active :: bool
  is_struck_off :: bool
  has_voted :: bool

record Registry =
  voters :: "bytes \<rightharpoonup> VoterRegistration"
  total_registered :: u64
  admin :: address

record CandidateResult =
  candidate_id :: bytes
  vote_count :: u64
  percentage :: u64

record TallyRecord =
  election_id :: bytes
  results :: "bytes \<rightharpoonup> CandidateResult"
  total_votes :: u64
  valid_votes :: u64
  invalid_votes :: u64
  polling_end_time :: u64
  tally_start_time :: u64
  tally_end_time :: u64
  is_finalized :: bool
  tv_admin :: address
  result_hash :: bytes
  zkp_proof :: bytes

record VoteCommitment =
  voter_commitment :: bytes
  vote_hash :: bytes
  ipfs_hash :: bytes
  tracking_code_hash :: bytes
  cast_at :: u64
  is_final :: bool

record BallotBox =
  votes :: "bytes \<rightharpoonup> VoteCommitment"
  eb_vote_count :: u64
  polling_start :: u64
  polling_end :: u64
  eb_admin :: address
  merkle_root :: bytes

record VoteRecord =
  commitment :: bytes
  timestamp :: u64
  is_valid :: bool
  merkle_proof :: "bytes list"

record BulletinBoard =
  records :: "bytes \<rightharpoonup> VoteRecord"
  total_records :: u64
  bb_merkle_root :: bytes
  bb_election_id :: bytes

datatype event =
    RegistrationEvent bytes u64
  | VotingEvent bytes u64
  | TallyStartedEvent bytes u64 u64
  | TallyFinalizedEvent bytes u64 u64 u64
  | ResultPublishedEvent bytes u64 u64
  | VoteCastEvent bytes u64
  | VoteReplacedEvent bytes u64
  | RecordPublishedEvent bytes bytes u64

record world =
  global_Registry :: "address \<rightharpoonup> Registry"
  global_TallyRecord :: "address \<rightharpoonup> TallyRecord"
  global_BallotBox :: "address \<rightharpoonup> BallotBox"
  global_BulletinBoard :: "address \<rightharpoonup> BulletinBoard"
  emitted :: "event list"

section \<open>Module \<open>voting::voter_registry\<close>\<close>

definition EALREADY_REGISTERED :: u64 where "EALREADY_REGISTERED = 1"
definition ENOT_REGISTERED :: u64 where "ENOT_REGISTERED = 2"
definition EINVALID_EPIC_HASH :: u64 where "EINVALID_EPIC_HASH = 3"
definition EUNAUTHORIZED :: u64 where "EUNAUTHORIZED = 4"

definition voter_registry_initialize :: "world \<Rightarrow> address \<Rightarrow> vm_status + world" where
  "voter_registry_initialize w admin_addr =
     (if global_Registry w admin_addr \<noteq> None then Inl RESOURCE_ALREADY_EXISTS
      else Inr (w\<lparr>global_Registry := (global_Registry w)(admin_addr \<mapsto>
             \<lparr>voters = Map.empty, total_registered = 0, admin = admin_addr\<rparr>)\<rparr>))"

definition register_voter ::
  "address \<Rightarrow> u64 \<Rightarrow> world \<Rightarrow> address \<Rightarrow> bytes \<Rightarrow> bytes \<Rightarrow> bytes \<Rightarrow> vm_status + world" where
  "register_voter voting now w voter epic aadhaar biometric =
     (case global_Registry w voting of
        None \<Rightarrow> Inl MISSING_DATA
      | Some registry \<Rightarrow>
          if table_contains (voters registry) epic
          then Inl (ABORTED Voter_registry EALREADY_REGISTERED)
          else
            let registration = \<lparr>epic_hash = epic, aadhaar_hash = aadhaar,
                  biometric_hash = biometric, registered_at = now, is_active = True,
                  is_struck_off = True, has_voted = False\<rparr>
            in (case table_add (voters registry) epic registration of
                  Inl e \<Rightarrow> Inl e
                | Inr voters' \<Rightarrow>
                   (case add_u64 (total_registered registry) 1 of
                      Inl e \<Rightarrow> Inl e
                    | Inr n \<Rightarrow>
                        Inr (w\<lparr>global_Registry := (global_Registry w)(voting \<mapsto>
                                 registry\<lparr>voters := voters', total_registered := n\<rparr>),
                               emitted := emitted w @ [RegistrationEvent epic now]\<rparr>))))"

definition is_voter_eligible :: "address \<Rightarrow> world \<Rightarrow> bytes \<Rightarrow> vm_status + bool" where
  "is_voter_eligible voting w epic =
     (case global_Registry w voting of
        None \<Rightarrow> Inl MISSING_DATA
      | Some registry \<Rightarrow>
          if \<not> table_contains (voters registry) epic then Inr False
          else (case table_borrow (voters registry) epic of
                  Inl e \<Rightarrow> Inl e
                | Inr voter \<Rightarrow> Inr (is_active voter \<and> \<not> has_voted voter)))"

definition mark_voted :: "address \<Rightarrow> u64 \<Rightarrow> world \<Rightarrow> bytes \<Rightarrow> vm_status + world" where
  "mark_voted voting now w epic =
     (case global_Registry w voting of
        None \<Rightarrow> Inl MISSING_DATA
      | Some registry \<Rightarrow>
          if \<not> table_contains (voters registry) epic
          then Inl (ABORTED Voter_registry ENOT_REGISTERED)
          else (case table_borrow (voters registry) epic of
                  Inl e \<Rightarrow> Inl e
                | Inr voter \<Rightarrow>
                    Inr (w\<lparr>global_Registry := (global_Registry w)(voting \<mapsto>
                             registry\<lparr>voters := (voters registry)(epic \<mapsto>
                               voter\<lparr>has_voted := True\<rparr>)\<rparr>),
                           emitted := emitted w @ [VotingEvent epic now]\<rparr>)))"

definition reset_voted_status :: "address \<Rightarrow> world \<Rightarrow> bytes \<Rightarrow> vm_status + world" where
  "reset_voted_status voting w epic =
     (case global_Registry w voting of
        None \<Rightarrow> Inl MISSING_DATA
      | Some registry \<Rightarrow>
          if \<not> table_contains (voters registry) epic
          then Inl (ABORTED Voter_registry ENOT_REGISTERED)
          else (case table_borrow (voters registry) epic of
                  Inl e \<Rightarrow> Inl e
                | Inr voter \<Rightarrow>
                    Inr (w\<lparr>global_Registry := (global_Registry w)(voting \<mapsto>
                             registry\<lparr>voters := (voters registry)(epic \<mapsto>
                               voter\<lparr>has_voted := False\<rparr>)\<rparr>)\<rparr>)))"

definition get_voter_details ::
  "address \<Rightarrow> world \<Rightarrow> bytes \<Rightarrow> vm_status + (bool \<times> u64 \<times> bool \<times> bool)" where
  "get_voter_details voting w epic =
     (case global_Registry w voting of
        None \<Rightarrow> Inl MISSING_DATA
      | Some registry \<Rightarrow>
          if \<not> table_contains (voters registry) epic then Inr (False, 0, False, False)
          else (case table_borrow (voters registry) epic of
                  Inl e \<Rightarrow> Inl e
                | Inr voter \<Rightarrow>
                    Inr (is_active voter, registered_at voter, is_struck_off voter,
                         has_voted voter)))"

definition get_total_registered :: "address \<Rightarrow> world \<Rightarrow> vm_status + u64" where
  "get_total_registered voting w =
     (case global_Registry w voting of
        None \<Rightarrow> Inl MISSING_DATA
      | Some registry \<Rightarrow> Inr (total_registered registry))"

definition deactivate_voter :: "address \<Rightarrow> world \<Rightarrow> address \<Rightarrow> bytes \<Rightarrow> vm_status + world" where
  "deactivate_voter voting w admin_addr epic =
     (case global_Registry w voting of
        None \<Rightarrow> Inl MISSING_DATA
      | Some registry \<Rightarrow>
          if admin_addr \<noteq> admin registry then Inl (ABORTED Voter_registry EUNAUTHORIZED)
          else if \<not> table_contains (voters registry) epic
          then Inl (ABORTED Voter_registry ENOT_REGISTERED)
          else (case table_borrow (voters registry) epic of
                  Inl e \<Rightarrow> Inl e
                | Inr voter \<Rightarrow>
                    Inr (w\<lparr>global_Registry := (global_Registry w)(voting \<mapsto>
                             registry\<lparr>voters := (voters registry)(epic \<mapsto>
                               voter\<lparr>is_active := False\<rparr>)\<rparr>)\<rparr>)))"

section \<open>Module \<open>voting::tally_validator\<close>\<close>

text \<open>
  The error constants of the other modules that reuse a name of \<open>voter_registry\<close> carry
  the module's initials (\<open>TV_EUNAUTHORIZED\<close>, \<open>EB_EUNAUTHORIZED\<close>); so do the functions
  \<open>initialize\<close> and \<open>update_merkle_root\<close>, which several modules define, and the view
  \<open>tally_is_finalized\<close>, whose source name is the field's.
\<close>

definition EPOLLING_NOT_ENDED :: u64 where "EPOLLING_NOT_ENDED = 1"
definition EALREADY_FINALIZED :: u64 where "EALREADY_FINALIZED = 2"
definition TV_EUNAUTHORIZED :: u64 where "TV_EUNAUTHORIZED = 3"
definition EINVALID_PROOF :: u64 where "EINVALID_PROOF = 4"
definition ENOT_FINALIZED :: u64 where "ENOT_FINALIZED = 5"

definition tally_validator_initialize ::
  "world \<Rightarrow> address \<Rightarrow> bytes \<Rightarrow> u64 \<Rightarrow> vm_status + world" where
  "tally_validator_initialize w admin_addr eid end_time =
     (if global_TallyRecord w admin_addr \<noteq> None then Inl RESOURCE_ALREADY_EXISTS
      else Inr (w\<lparr>global_TallyRecord := (global_TallyRecord w)(admin_addr \<mapsto>
             \<lparr>election_id = eid, results = Map.empty, total_votes = 0, valid_votes = 0,
              invalid_votes = 0, polling_end_time = end_time, tally_start_time = 0,
              tally_end_time = 0, is_finalized = False, tv_admin = admin_addr,
              result_hash = [], zkp_proof = []\<rparr>)\<rparr>))"

definition start_tally :: "address \<Rightarrow> u64 \<Rightarrow> world \<Rightarrow> address \<Rightarrow> u64 \<Rightarrow> vm_status + world" where
  "start_tally voting now w admin_addr votes_total =
     (case global_TallyRecord w voting of
        None \<Rightarrow> Inl MISSING_DATA
      | Some tally \<Rightarrow>
          if admin_addr \<noteq> tv_admin tally then Inl (ABORTED Tally_validator TV_EUNAUTHORIZED)
          else if \<not> now \<ge> polling_end_time tally
          then Inl (ABORTED Tally_validator EPOLLING_NOT_ENDED)
          else if is_finalized tally then Inl (ABORTED Tally_validator EALREADY_FINALIZED)
          else Inr (w\<lparr>global_TallyRecord := (global_TallyRecord w)(voting \<mapsto>
                        tally\<lparr>total_votes := votes_total, tally_start_time := now\<rparr>),
                      emitted := emitted w @ [TallyStartedEvent (election_id tally) now votes_total]\<rparr>))"

definition record_result ::
  "address \<Rightarrow> world \<Rightarrow> address \<Rightarrow> bytes \<Rightarrow> u64 \<Rightarrow> u64 \<Rightarrow> vm_status + world" where
  "record_result voting w admin_addr cid count pct =
     (case global_TallyRecord w voting of
        None \<Rightarrow> Inl MISSING_DATA
      | Some tally \<Rightarrow>
          if admin_addr \<noteq> tv_admin tally then Inl (ABORTED Tally_validator TV_EUNAUTHORIZED)
          else if is_finalized tally then Inl (ABORTED Tally_validator EALREADY_FINALIZED)
          else
            let result = \<lparr>candidate_id = cid, vote_count = count, percentage = pct\<rparr>
            in (case (if table_contains (results tally) cid
                      then Inr (table_upsert (results tally) cid result)
                      else table_add (results tally) cid result) of
                  Inl e \<Rightarrow> Inl e
                | Inr results' \<Rightarrow>
                    Inr (w\<lparr>global_TallyRecord := (global_TallyRecord w)(voting \<mapsto>
                             tally\<lparr>results := results'\<rparr>),
                           emitted := emitted w @ [ResultPublishedEvent cid count pct]\<rparr>)))"

definition finalize_tally ::
  "address \<Rightarrow> u64 \<Rightarrow> world \<Rightarrow> address \<Rightarrow> u64 \<Rightarrow> u64 \<Rightarrow> bytes \<Rightarrow> bytes \<Rightarrow> vm_status + world" where
  "finalize_tally voting now w admin_addr valid invalid rhash prf =
     (case global_TallyRecord w voting of
        None \<Rightarrow> Inl MISSING_DATA
      | Some tally \<Rightarrow>
          if admin_addr \<noteq> tv_admin tally then Inl (ABORTED Tally_validator TV_EUNAUTHORIZED)
          else if is_finalized tally then Inl (ABORTED Tally_validator EALREADY_FINALIZED)
          else Inr (w\<lparr>global_TallyRecord := (global_TallyRecord w)(voting \<mapsto>
                        tally\<lparr>valid_votes := valid, invalid_votes := invalid,
                              result_hash := rhash, zkp_proof := prf,
                              tally_end_time := now, is_finalized := True\<rparr>),
                      emitted := emitted w @
                        [TallyFinalizedEvent (election_id tally) now (total_votes tally) valid]\<rparr>))"

definition get_candidate_result ::
  "address \<Rightarrow> world \<Rightarrow> bytes \<Rightarrow> vm_status + (bool \<times> u64 \<times> u64)" where
  "get_candidate_result voting w cid =
     (case global_TallyRecord w voting of
        None \<Rightarrow> Inl MISSING_DATA
      | Some tally \<Rightarrow>
          if \<not> table_contains (results tally) cid then Inr (False, 0, 0)
          else (case table_borrow (results tally) cid of
                  Inl e \<Rightarrow> Inl e
                | Inr result \<Rightarrow> Inr (True, vote_count result, percentage result)))"

definition get_tally_summary ::
  "address \<Rightarrow> world \<Rightarrow> vm_status + (u64 \<times> u64 \<times> u64 \<times> bool \<times> u64)" where
  "get_tally_summary voting w =
     (case global_TallyRecord w voting of
        None \<Rightarrow> Inl MISSING_DATA
      | Some tally \<Rightarrow>
          Inr (total_votes tally, valid_votes tally, invalid_votes tally, is_finalized tally,
               tally_end_time tally))"

definition verify_tally_proof :: "address \<Rightarrow> world \<Rightarrow> bytes \<Rightarrow> vm_status + bool" where
  "verify_tally_proof voting w rhash =
     (case global_TallyRecord w voting of
        None \<Rightarrow> Inl MISSING_DATA
      | Some tally \<Rightarrow>
          if \<not> is_finalized tally then Inr False
          else Inr (rhash = result_hash tally))"

definition get_zkp_proof :: "address \<Rightarrow> world \<Rightarrow> vm_status + bytes" where
  "get_zkp_proof voting w =
     (case global_TallyRecord w voting of
        None \<Rightarrow> Inl MISSING_DATA
      | Some tally \<Rightarrow>
          if \<not> is_finalized tally then Inl (ABORTED Tally_validator ENOT_FINALIZED)
          else Inr (zkp_proof tally))"

definition tally_is_finalized :: "address \<Rightarrow> world \<Rightarrow> vm_status + bool" where
  "tally_is_finalized voting w =
     (case global_TallyRecord w voting of
        None \<Rightarrow> Inl MISSING_DATA
      | Some tally \<Rightarrow> Inr (is_finalized tally))"

section \<open>Module \<open>voting::encrypted_ballot\<close>\<close>

definition EPOLLING_NOT_STARTED :: u64 where "EPOLLING_NOT_STARTED = 1"
definition EPOLLING_ENDED :: u64 where "EPOLLING_ENDED = 2"
definition ENOT_ELIGIBLE :: u64 where "ENOT_ELIGIBLE = 3"
definition EINVALID_COMMITMENT :: u64 where "EINVALID_COMMITMENT = 4"
definition EB_EUNAUTHORIZED :: u64 where "EB_EUNAUTHORIZED = 5"

definition encrypted_ballot_initialize ::
  "world \<Rightarrow> address \<Rightarrow> u64 \<Rightarrow> u64 \<Rightarrow> vm_status + world" where
  "encrypted_ballot_initialize w admin_addr pstart pend =
     (if global_BallotBox w admin_addr \<noteq> None then Inl RESOURCE_ALREADY_EXISTS
      else Inr (w\<lparr>global_BallotBox := (global_BallotBox w)(admin_addr \<mapsto>
             \<lparr>votes = Map.empty, eb_vote_count = 0, polling_start = pstart,
              polling_end = pend, eb_admin = admin_addr, merkle_root = []\<rparr>)\<rparr>))"

text \<open>
  \<open>cast_vote\<close> in the source's order: the two polling assertions, the eligibility
  assertion, the write \<open>old_vote.is_final = false\<close> with its replace event on a re-vote,
  the store of the new commitment (\<open>upsert\<close> on a re-vote, \<open>add\<close> and the counter
  otherwise), \<open>voter_registry::mark_voted\<close>, the cast event. It calls no function of
  \<open>bulletin_board\<close>.
\<close>

definition cast_vote ::
  "address \<Rightarrow> u64 \<Rightarrow> world \<Rightarrow> address \<Rightarrow> bytes \<Rightarrow> bytes \<Rightarrow> bytes \<Rightarrow> bytes \<Rightarrow> bytes
     \<Rightarrow> vm_status + world" where
  "cast_vote voting now w voter epic vcommit vhash ipfs tch =
     (case global_BallotBox w voting of
        None \<Rightarrow> Inl MISSING_DATA
      | Some ballot_box \<Rightarrow>
          if \<not> now \<ge> polling_start ballot_box
          then Inl (ABORTED Encrypted_ballot EPOLLING_NOT_STARTED)
          else if \<not> now \<le> polling_end ballot_box
          then Inl (ABORTED Encrypted_ballot EPOLLING_ENDED)
          else (case is_voter_eligible voting w epic of
            Inl e \<Rightarrow> Inl e
          | Inr eligible \<Rightarrow>
              if \<not> eligible then Inl (ABORTED Encrypted_ballot ENOT_ELIGIBLE)
              else
                let is_revote = table_contains (votes ballot_box) tch in
                (case (if is_revote
                       then (case table_borrow (votes ballot_box) tch of
                               Inl e \<Rightarrow> Inl e
                             | Inr old_vote \<Rightarrow>
                                 Inr ((votes ballot_box)(tch \<mapsto> old_vote\<lparr>is_final := False\<rparr>),
                                      [VoteReplacedEvent tch now]))
                       else Inr (votes ballot_box, [])) of
                   Inl e \<Rightarrow> Inl e
                 | Inr (votes1, replaced) \<Rightarrow>
                     let commitment = \<lparr>voter_commitment = vcommit, vote_hash = vhash,
                           ipfs_hash = ipfs, tracking_code_hash = tch, cast_at = now,
                           is_final = True\<rparr>
                     in (case (if is_revote
                               then Inr (table_upsert votes1 tch commitment,
                                         eb_vote_count ballot_box)
                               else (case table_add votes1 tch commitment of
                                       Inl e \<Rightarrow> Inl e
                                     | Inr votes2 \<Rightarrow>
                                        (case add_u64 (eb_vote_count ballot_box) 1 of
                                           Inl e \<Rightarrow> Inl e
                                         | Inr n \<Rightarrow> Inr (votes2, n)))) of
                           Inl e \<Rightarrow> Inl e
                         | Inr (votes2, n) \<Rightarrow>
                            (case mark_voted voting now
                                    (w\<lparr>global_BallotBox := (global_BallotBox w)(voting \<mapsto>
                                          ballot_box\<lparr>votes := votes2, eb_vote_count := n\<rparr>),
                                        emitted := emitted w @ replaced\<rparr>) epic of
                               Inl e \<Rightarrow> Inl e
                             | Inr w' \<Rightarrow>
                                 Inr (w'\<lparr>emitted := emitted w' @ [VoteCastEvent tch now]\<rparr>))))))"

definition verify_vote :: "address \<Rightarrow> world \<Rightarrow> bytes \<Rightarrow> vm_status + (bool \<times> bytes \<times> u64)" where
  "verify_vote voting w tch =
     (case global_BallotBox w voting of
        None \<Rightarrow> Inl MISSING_DATA
      | Some ballot_box \<Rightarrow>
          if \<not> table_contains (votes ballot_box) tch then Inr (False, [], 0)
          else (case table_borrow (votes ballot_box) tch of
                  Inl e \<Rightarrow> Inl e
                | Inr vote \<Rightarrow> Inr (is_final vote, vote_hash vote, cast_at vote)))"

definition is_polling_active :: "address \<Rightarrow> u64 \<Rightarrow> world \<Rightarrow> vm_status + bool" where
  "is_polling_active voting now w =
     (case global_BallotBox w voting of
        None \<Rightarrow> Inl MISSING_DATA
      | Some ballot_box \<Rightarrow>
          Inr (now \<ge> polling_start ballot_box \<and> now \<le> polling_end ballot_box))"

definition get_vote_count :: "address \<Rightarrow> world \<Rightarrow> vm_status + u64" where
  "get_vote_count voting w =
     (case global_BallotBox w voting of
        None \<Rightarrow> Inl MISSING_DATA
      | Some ballot_box \<Rightarrow> Inr (eb_vote_count ballot_box))"

definition encrypted_ballot_update_merkle_root ::
  "address \<Rightarrow> world \<Rightarrow> address \<Rightarrow> bytes \<Rightarrow> vm_status + world" where
  "encrypted_ballot_update_merkle_root voting w admin_addr root =
     (case global_BallotBox w voting of
        None \<Rightarrow> Inl MISSING_DATA
      | Some ballot_box \<Rightarrow>
          if admin_addr \<noteq> eb_admin ballot_box
          then Inl (ABORTED Encrypted_ballot EB_EUNAUTHORIZED)
          else Inr (w\<lparr>global_BallotBox := (global_BallotBox w)(voting \<mapsto>
                        ballot_box\<lparr>merkle_root := root\<rparr>)\<rparr>))"

definition get_merkle_root :: "address \<Rightarrow> world \<Rightarrow> vm_status + bytes" where
  "get_merkle_root voting w =
     (case global_BallotBox w voting of
        None \<Rightarrow> Inl MISSING_DATA
      | Some ballot_box \<Rightarrow> Inr (merkle_root ballot_box))"

section \<open>Module \<open>voting::bulletin_board\<close>\<close>

definition EALREADY_RECORDED :: u64 where "EALREADY_RECORDED = 1"
definition ENOT_FOUND :: u64 where "ENOT_FOUND = 2"

definition bulletin_board_initialize :: "world \<Rightarrow> address \<Rightarrow> bytes \<Rightarrow> vm_status + world" where
  "bulletin_board_initialize w admin_addr eid =
     (if global_BulletinBoard w admin_addr \<noteq> None then Inl RESOURCE_ALREADY_EXISTS
      else Inr (w\<lparr>global_BulletinBoard := (global_BulletinBoard w)(admin_addr \<mapsto>
             \<lparr>records = Map.empty, total_records = 0, bb_merkle_root = [],
              bb_election_id = eid\<rparr>)\<rparr>))"

definition record_vote ::
  "address \<Rightarrow> u64 \<Rightarrow> world \<Rightarrow> address \<Rightarrow> bytes \<Rightarrow> bytes \<Rightarrow> vm_status + world" where
  "record_vote voting now w publisher tch cmt =
     (case global_BulletinBoard w voting of
        None \<Rightarrow> Inl MISSING_DATA
      | Some board \<Rightarrow>
          let is_update = table_contains (records board) tch;
              vrecord = \<lparr>commitment = cmt, timestamp = now, is_valid = True, merkle_proof = []\<rparr>
          in (case (if is_update
                    then Inr (table_upsert (records board) tch vrecord, total_records board)
                    else (case table_add (records board) tch vrecord of
                            Inl e \<Rightarrow> Inl e
                          | Inr records' \<Rightarrow>
                             (case add_u64 (total_records board) 1 of
                                Inl e \<Rightarrow> Inl e
                              | Inr n \<Rightarrow> Inr (records', n)))) of
                Inl e \<Rightarrow> Inl e
              | Inr (records', n) \<Rightarrow>
                  Inr (w\<lparr>global_BulletinBoard := (global_BulletinBoard w)(voting \<mapsto>
                           board\<lparr>records := records', total_records := n\<rparr>),
                         emitted := emitted w @ [RecordPublishedEvent tch cmt now]\<rparr>)))"

definition get_vote_record :: "address \<Rightarrow> world \<Rightarrow> bytes \<Rightarrow> vm_status + (bytes \<times> u64 \<times> bool)" where
  "get_vote_record voting w tch =
     (case global_BulletinBoard w voting of
        None \<Rightarrow> Inl MISSING_DATA
      | Some board \<Rightarrow>
          if \<not> table_contains (records board) tch then Inr ([], 0, False)
          else (case table_borrow (records board) tch of
                  Inl e \<Rightarrow> Inl e
                | Inr vrecord \<Rightarrow>
                    Inr (commitment vrecord, timestamp vrecord, is_valid vrecord)))"

text \<open>
  Both admin updates of the board take the signer, read its address into \<open>_\<close> and compare
  it with nothing: the struct \<open>BulletinBoard\<close> has no admin field.
\<close>

definition update_merkle_proof ::
  "address \<Rightarrow> world \<Rightarrow> address \<Rightarrow> bytes \<Rightarrow> bytes list \<Rightarrow> vm_status + world" where
  "update_merkle_proof voting w admin_addr tch prf =
     (case global_BulletinBoard w voting of
        None \<Rightarrow> Inl MISSING_DATA
      | Some board \<Rightarrow>
          if \<not> table_contains (records board) tch then Inl (ABORTED Bulletin_board ENOT_FOUND)
          else (case table_borrow (records board) tch of
                  Inl e \<Rightarrow> Inl e
                | Inr vrecord \<Rightarrow>
                    Inr (w\<lparr>global_BulletinBoard := (global_BulletinBoard w)(voting \<mapsto>
                             board\<lparr>records := (records board)(tch \<mapsto>
                               vrecord\<lparr>merkle_proof := prf\<rparr>)\<rparr>)\<rparr>)))"

definition bulletin_board_update_merkle_root ::
  "address \<Rightarrow> world \<Rightarrow> address \<Rightarrow> bytes \<Rightarrow> vm_status + world" where
  "bulletin_board_update_merkle_root voting w admin_addr root =
     (case global_BulletinBoard w voting of
        None \<Rightarrow> Inl MISSING_DATA
      | Some board \<Rightarrow>
          Inr (w\<lparr>global_BulletinBoard := (global_BulletinBoard w)(voting \<mapsto>
                   board\<lparr>bb_merkle_root := root\<rparr>)\<rparr>))"

definition get_statistics :: "address \<Rightarrow> world \<Rightarrow> vm_status + (u64 \<times> bytes \<times> bytes)" where
  "get_statistics voting w =
     (case global_BulletinBoard w voting of
        None \<Rightarrow> Inl MISSING_DATA
      | Some board \<Rightarrow> Inr (total_records board, bb_merkle_root board, bb_election_id board))"

definition verify_merkle_proof :: "address \<Rightarrow> world \<Rightarrow> bytes \<Rightarrow> bytes \<Rightarrow> vm_status + bool" where
  "verify_merkle_proof voting w tch root =
     (case global_BulletinBoard w voting of
        None \<Rightarrow> Inl MISSING_DATA
      | Some board \<Rightarrow>
          if \<not> table_contains (records board) tch then Inr False
          else Inr (root = bb_merkle_root board))"

section \<open>Transactions\<close>

text \<open>
  A transaction is a sender, the ledger time at which it executes, and a call of one entry
  function. The sender is the \<open>&signer\<close> argument of the functions that take one;
  \<open>mark_voted\<close> and \<open>reset_voted_status\<close> take none. A transaction that aborts commits
  nothing (\<open>apply_tx\<close>).
\<close>

datatype call =
    Voter_registry_initialize
  | Register_voter bytes bytes bytes
  | Mark_voted bytes
  | Reset_voted_status bytes
  | Deactivate_voter bytes
  | Tally_validator_initialize bytes u64
  | Start_tally u64
  | Record_result bytes u64 u64
  | Finalize_tally u64 u64 bytes bytes
  | Encrypted_ballot_initialize u64 u64
  | Cast_vote bytes bytes bytes bytes bytes
  | Encrypted_ballot_update_merkle_root bytes
  | Bulletin_board_initialize bytes
  | Record_vote bytes bytes
  | Update_merkle_proof bytes "bytes list"
  | Bulletin_board_update_merkle_root bytes

type_synonym tx = "address \<times> u64 \<times> call"

fun execute :: "address \<Rightarrow> world \<Rightarrow> tx \<Rightarrow> vm_status + world" where
  "execute voting w (sender, now, Voter_registry_initialize) =
     voter_registry_initialize w sender"
| "execute voting w (sender, now, Register_voter epic aadhaar biometric) =
     register_voter voting now w sender epic aadhaar biometric"
| "execute voting w (sender, now, Mark_voted epic) = mark_voted voting now w epic"
| "execute voting w (sender, now, Reset_voted_status epic) = reset_voted_status voting w epic"
| "execute voting w (sender, now, Deactivate_voter epic) = deactivate_voter voting w sender epic"
| "execute voting w (sender, now, Tally_validator_initialize eid end_time) =
     tally_validator_initialize w sender eid end_time"
| "execute voting w (sender, now, Start_tally votes_total) =
     start_tally voting now w sender votes_total"
| "execute voting w (sender, now, Record_result cid count pct) =
     record_result voting w sender cid count pct"
| "execute voting w (sender, now, Finalize_tally valid invalid rhash prf) =
     finalize_tally voting now w sender valid invalid rhash prf"
| "execute voting w (sender, now, Encrypted_ballot_initialize pstart pend) =
     encrypted_ballot_initialize w sender pstart pend"
| "execute voting w (sender, now, Cast_vote epic vcommit vhash ipfs tch) =
     cast_vote voting now w sender epic vcommit vhash ipfs tch"
| "execute voting w (sender, now, Encrypted_ballot_update_merkle_root root) =
     encrypted_ballot_update_merkle_root voting w sender root"
| "execute voting w (sender, now, Bulletin_board_initialize eid) =
     bulletin_board_initialize w sender eid"
| "execute voting w (sender, now, Record_vote tch cmt) =
     record_vote voting now w sender tch cmt"
| "execute voting w (sender, now, Update_merkle_proof tch prf) =
     update_merkle_proof voting w sender tch prf"
| "execute voting w (sender, now, Bulletin_board_update_merkle_root root) =
     bulletin_board_update_merkle_root voting w sender root"

definition apply_tx :: "address \<Rightarrow> world \<Rightarrow> tx \<Rightarrow> world" where
  "apply_tx voting w t = (case execute voting w t of Inl e \<Rightarrow> w | Inr w' \<Rightarrow> w')"

fun run :: "address \<Rightarrow> world \<Rightarrow> tx list \<Rightarrow> world" where
  "run voting w [] = w"
| "run voting w (t # ts) = run voting (apply_tx voting w t) ts"

definition genesis :: world where
  "genesis = \<lparr>global_Registry = Map.empty, global_TallyRecord = Map.empty,
              global_BallotBox = Map.empty, global_BulletinBoard = Map.empty, emitted = []\<rparr>"

section \<open>Traces\<close>

text \<open>
  \<open>registered\<close> says that the registry published at \<open>@voting\<close> holds a record for an
  identity commitment. \<open>successful_casts\<close> lists, in order, the tracking codes of the
  \<open>cast_vote\<close> transactions of a trace that did not abort.
\<close>

definition registered :: "address \<Rightarrow> world \<Rightarrow> bytes \<Rightarrow> bool" where
  "registered voting w x =
     (case global_Registry w voting of None \<Rightarrow> False | Some reg \<Rightarrow> voters reg x \<noteq> None)"

fun cast_code :: "call \<Rightarrow> bytes list" where
  "cast_code (Cast_vote epic vcommit vhash ipfs tch) = [tch]"
| "cast_code _ = []"

fun successful_casts :: "address \<Rightarrow> world \<Rightarrow> tx list \<Rightarrow> bytes list" where
  "successful_casts voting w [] = []"
| "successful_casts voting w (t # ts) =
     (case execute voting w t of
        Inl e \<Rightarrow> successful_casts voting w ts
      | Inr w' \<Rightarrow> cast_code (snd (snd t)) @ successful_casts voting w' ts)"

subsection \<open>A concrete election\<close>

text \<open>
  The modules are published at address 1, whose owner initialises all four: polling runs
  from 10 to 20 and the tally may start at 20. Voter \<open>[1]\<close> registers at time 5, casts
  vote hash \<open>[41]\<close> under tracking code \<open>[61]\<close> at time 12, has the voted flag reset at
  13 and casts vote hash \<open>[42]\<close> under the same code at 15.
\<close>

definition demo_init :: world where
  "demo_init = run 1 genesis
     [(1, 0, Voter_registry_initialize), (1, 0, Encrypted_ballot_initialize 10 20),
      (1, 0, Bulletin_board_initialize [7]), (1, 0, Tally_validator_initialize [7] 20)]"

definition demo_world :: world where
  "demo_world = run 1 demo_init [(2, 5, Register_voter [1] [11] [21])]"

definition demo_cast1 :: world where
  "demo_cast1 = apply_tx 1 demo_world (2, 12, Cast_vote [1] [31] [41] [51] [61])"

definition demo_reset :: world where
  "demo_reset = apply_tx 1 demo_cast1 (2, 13, Reset_voted_status [1])"

definition demo_cast2 :: world where
  "demo_cast2 = apply_tx 1 demo_reset (2, 15, Cast_vote [1] [31] [42] [52] [61])"

definition demo_started :: world where
  "demo_started = apply_tx 1 demo_cast2 (1, 25, Start_tally 1)"

definition demo_finalized :: world where
  "demo_finalized = apply_tx 1 demo_started (1, 30, Finalize_tally 1 0 [72] [73])"

section \<open>The operations in closed form\<close>

lemmas table_defs = table_contains_def table_add_def table_upsert_def table_borrow_def

lemma add_u64_one:
  "add_u64 a 1 = (if unat a + 1 < 2 ^ 64 then Inr (a + 1) else Inl ARITHMETIC_ERROR)"
  by (simp add: add_u64_def)

lemma unat_succ_u64: "unat (a :: u64) + 1 < 2 ^ 64 \<Longrightarrow> unat (a + 1) = unat a + 1"
  by (simp add: unat_word_ariths)

lemma register_voter_eq:
  "register_voter voting now w voter epic aadhaar biometric =
     (case global_Registry w voting of
        None \<Rightarrow> Inl MISSING_DATA
      | Some reg \<Rightarrow>
          if voters reg epic \<noteq> None then Inl (ABORTED Voter_registry EALREADY_REGISTERED)
          else if \<not> unat (total_registered reg) + 1 < 2 ^ 64 then Inl ARITHMETIC_ERROR
          else Inr (w\<lparr>global_Registry := (global_Registry w)(voting \<mapsto>
                  reg\<lparr>voters := (voters reg)(epic \<mapsto>
                         \<lparr>epic_hash = epic, aadhaar_hash = aadhaar, biometric_hash = biometric,
                          registered_at = now, is_active = True, is_struck_off = True,
                          has_voted = False\<rparr>),
                       total_registered := total_registered reg + 1\<rparr>),
                emitted := emitted w @ [RegistrationEvent epic now]\<rparr>))"
  by (auto simp: register_voter_def table_defs add_u64_one Let_def split: option.splits)

lemma is_voter_eligible_eq:
  "is_voter_eligible voting w epic =
     (case global_Registry w voting of
        None \<Rightarrow> Inl MISSING_DATA
      | Some reg \<Rightarrow> Inr (\<exists>r. voters reg epic = Some r \<and> is_active r \<and> \<not> has_voted r))"
  by (auto simp: is_voter_eligible_def table_defs split: option.splits)

lemma mark_voted_eq:
  "mark_voted voting now w epic =
     (case global_Registry w voting of
        None \<Rightarrow> Inl MISSING_DATA
      | Some reg \<Rightarrow>
         (case voters reg epic of
            None \<Rightarrow> Inl (ABORTED Voter_registry ENOT_REGISTERED)
          | Some r \<Rightarrow>
              Inr (w\<lparr>global_Registry := (global_Registry w)(voting \<mapsto>
                       reg\<lparr>voters := (voters reg)(epic \<mapsto> r\<lparr>has_voted := True\<rparr>)\<rparr>),
                     emitted := emitted w @ [VotingEvent epic now]\<rparr>)))"
  by (auto simp: mark_voted_def table_defs split: option.splits)

lemma reset_voted_status_eq:
  "reset_voted_status voting w epic =
     (case global_Registry w voting of
        None \<Rightarrow> Inl MISSING_DATA
      | Some reg \<Rightarrow>
         (case voters reg epic of
            None \<Rightarrow> Inl (ABORTED Voter_registry ENOT_REGISTERED)
          | Some r \<Rightarrow>
              Inr (w\<lparr>global_Registry := (global_Registry w)(voting \<mapsto>
                       reg\<lparr>voters := (voters reg)(epic \<mapsto> r\<lparr>has_voted := False\<rparr>)\<rparr>)\<rparr>)))"
  by (auto simp: reset_voted_status_def table_defs split: option.splits)

lemma deactivate_voter_eq:
  "deactivate_voter voting w admin_addr epic =
     (case global_Registry w voting of
        None \<Rightarrow> Inl MISSING_DATA
      | Some reg \<Rightarrow>
          if admin_addr \<noteq> admin reg then Inl (ABORTED Voter_registry EUNAUTHORIZED)
          else (case voters reg epic of
            None \<Rightarrow> Inl (ABORTED Voter_registry ENOT_REGISTERED)
          | Some r \<Rightarrow>
              Inr (w\<lparr>global_Registry := (global_Registry w)(voting \<mapsto>
                       reg\<lparr>voters := (voters reg)(epic \<mapsto> r\<lparr>is_active := False\<rparr>)\<rparr>)\<rparr>)))"
  by (auto simp: deactivate_voter_def table_defs split: option.splits)

lemma cast_vote_eq:
  "cast_vote voting now w voter epic vcommit vhash ipfs tch =
     (case global_BallotBox w voting of
        None \<Rightarrow> Inl MISSING_DATA
      | Some box \<Rightarrow>
          if now < polling_start box then Inl (ABORTED Encrypted_ballot EPOLLING_NOT_STARTED)
          else if polling_end box < now then Inl (ABORTED Encrypted_ballot EPOLLING_ENDED)
          else (case global_Registry w voting of
                  None \<Rightarrow> Inl MISSING_DATA
                | Some reg \<Rightarrow>
                   (case voters reg epic of
                      None \<Rightarrow> Inl (ABORTED Encrypted_ballot ENOT_ELIGIBLE)
                    | Some v \<Rightarrow>
                        if \<not> (is_active v \<and> \<not> has_voted v)
                        then Inl (ABORTED Encrypted_ballot ENOT_ELIGIBLE)
                        else if votes box tch = None \<and> \<not> unat (eb_vote_count box) + 1 < 2 ^ 64
                        then Inl ARITHMETIC_ERROR
                        else Inr (w\<lparr>global_BallotBox := (global_BallotBox w)(voting \<mapsto>
                                box\<lparr>votes := (votes box)(tch \<mapsto>
                                       \<lparr>voter_commitment = vcommit, vote_hash = vhash,
                                        ipfs_hash = ipfs, tracking_code_hash = tch, cast_at = now,
                                        is_final = True\<rparr>),
                                     eb_vote_count := (if votes box tch = None
                                        then eb_vote_count box + 1 else eb_vote_count box)\<rparr>),
                              global_Registry := (global_Registry w)(voting \<mapsto>
                                reg\<lparr>voters := (voters reg)(epic \<mapsto> v\<lparr>has_voted := True\<rparr>)\<rparr>),
                              emitted := emitted w @
                                (if votes box tch = None then [] else [VoteReplacedEvent tch now]) @
                                [VotingEvent epic now, VoteCastEvent tch now]\<rparr>))))"
  by (auto simp: cast_vote_def is_voter_eligible_def mark_voted_def table_defs add_u64_one Let_def
      not_le split: option.splits)

lemmas op_defs = voter_registry_initialize_def register_voter_eq mark_voted_eq
  reset_voted_status_eq deactivate_voter_eq tally_validator_initialize_def start_tally_def
  record_result_def finalize_tally_def encrypted_ballot_initialize_def cast_vote_eq
  encrypted_ballot_update_merkle_root_def bulletin_board_initialize_def record_vote_def
  update_merkle_proof_def bulletin_board_update_merkle_root_def table_defs add_u64_one Let_def

subsection \<open>The concrete election, evaluated\<close>

lemma demo_init_eq:
  "demo_init = \<lparr>global_Registry = [1 \<mapsto> \<lparr>voters = Map.empty, total_registered = 0, admin = 1\<rparr>],
     global_TallyRecord = [1 \<mapsto> \<lparr>election_id = [7], results = Map.empty, total_votes = 0,
        valid_votes = 0, invalid_votes = 0, polling_end_time = 20, tally_start_time = 0,
        tally_end_time = 0, is_finalized = False, tv_admin = 1, result_hash = [],
        zkp_proof = []\<rparr>],
     global_BallotBox = [1 \<mapsto> \<lparr>votes = Map.empty, eb_vote_count = 0, polling_start = 10,
        polling_end = 20, eb_admin = 1, merkle_root = []\<rparr>],
     global_BulletinBoard = [1 \<mapsto> \<lparr>records = Map.empty, total_records = 0,
        bb_merkle_root = [], bb_election_id = [7]\<rparr>],
     emitted = []\<rparr>"
  by (simp add: demo_init_def op_defs apply_tx_def genesis_def)

lemma demo_world_eq:
  "demo_world = demo_init\<lparr>global_Registry := [1 \<mapsto> \<lparr>voters = [[1] \<mapsto>
        \<lparr>epic_hash = [1], aadhaar_hash = [11], biometric_hash = [21], registered_at = 5,
         is_active = True, is_struck_off = True, has_voted = False\<rparr>],
        total_registered = 1, admin = 1\<rparr>],
      emitted := [RegistrationEvent [1] 5]\<rparr>"
  by (simp add: demo_world_def demo_init_eq op_defs apply_tx_def)

section \<open>Eligibility registry\<close>

lemma registered_execute:
  assumes "registered voting w x" and "execute voting w t = Inr w'"
  shows "registered voting w' x"
proof -
  obtain sender now c where t: "t = (sender, now, c)" by (cases t)
  show ?thesis
    using assms unfolding t
    by (cases c) (auto simp: registered_def op_defs split: option.splits if_splits sum.splits)
qed

lemma registered_apply_tx: "registered voting w x \<Longrightarrow> registered voting (apply_tx voting w t) x"
  by (auto simp: apply_tx_def registered_execute split: sum.splits)

lemma registered_run: "registered voting w x \<Longrightarrow> registered voting (run voting w ts) x"
  by (induction ts arbitrary: w) (auto simp: registered_apply_tx)

lemma registered_register_voter:
  "registered voting w x \<Longrightarrow>
   register_voter voting now w voter x a b = Inl (ABORTED Voter_registry EALREADY_REGISTERED)"
  by (auto simp: registered_def register_voter_eq split: option.splits)

text \<open>
  C9. With the registry published at \<open>@voting\<close>: \<open>register_voter\<close> for an identity
  commitment that already has a record aborts with \<open>EALREADY_REGISTERED\<close> and the
  transaction changes nothing; for an absent one (the \<open>u64\<close> counter not at its maximum)
  it stores a record with \<open>is_active\<close> and \<open>is_struck_off\<close> true and \<open>has_voted\<close>
  false, and from then on, after any further transactions, every \<open>register_voter\<close> for
  the same commitment aborts with \<open>EALREADY_REGISTERED\<close> and leaves the state unchanged.
\<close>

theorem register_voter_at_most_once:
  assumes "global_Registry w voting = Some reg"
  shows "(voters reg x \<noteq> None \<longrightarrow>
            register_voter voting now w voter x a b =
              Inl (ABORTED Voter_registry EALREADY_REGISTERED)
          \<and> apply_tx voting w (voter, now, Register_voter x a b) = w)
       \<and> (voters reg x = None \<and> unat (total_registered reg) + 1 < 2 ^ 64 \<longrightarrow>
            (\<exists>w' reg'. register_voter voting now w voter x a b = Inr w'
               \<and> global_Registry w' voting = Some reg'
               \<and> voters reg' = (voters reg)(x \<mapsto>
                    \<lparr>epic_hash = x, aadhaar_hash = a, biometric_hash = b, registered_at = now,
                     is_active = True, is_struck_off = True, has_voted = False\<rparr>)
               \<and> unat (total_registered reg') = unat (total_registered reg) + 1
               \<and> (\<forall>ts voter2 now2 a2 b2.
                     register_voter voting now2 (run voting w' ts) voter2 x a2 b2 =
                       Inl (ABORTED Voter_registry EALREADY_REGISTERED)
                   \<and> apply_tx voting (run voting w' ts) (voter2, now2, Register_voter x a2 b2) =
                       run voting w' ts)))"
proof (intro conjI impI)
  assume "voters reg x \<noteq> None"
  then show "register_voter voting now w voter x a b =
      Inl (ABORTED Voter_registry EALREADY_REGISTERED)"
    using assms by (simp add: register_voter_eq)
  then show "apply_tx voting w (voter, now, Register_voter x a b) = w"
    by (simp add: apply_tx_def)
next
  assume fresh: "voters reg x = None \<and> unat (total_registered reg) + 1 < 2 ^ 64"
  define reg' where "reg' = reg\<lparr>voters := (voters reg)(x \<mapsto>
       \<lparr>epic_hash = x, aadhaar_hash = a, biometric_hash = b, registered_at = now,
        is_active = True, is_struck_off = True, has_voted = False\<rparr>),
      total_registered := total_registered reg + 1\<rparr>"
  define w' where "w' = w\<lparr>global_Registry := (global_Registry w)(voting \<mapsto> reg'),
      emitted := emitted w @ [RegistrationEvent x now]\<rparr>"
  have ok: "register_voter voting now w voter x a b = Inr w'"
    using assms fresh by (simp add: register_voter_eq w'_def reg'_def)
  have reg: "registered voting w' x"
    by (simp add: registered_def w'_def reg'_def)
  have later: "register_voter voting now2 (run voting w' ts) voter2 x a2 b2 =
        Inl (ABORTED Voter_registry EALREADY_REGISTERED)" for ts voter2 now2 a2 b2
    by (rule registered_register_voter [OF registered_run [OF reg]])
  have "global_Registry w' voting = Some reg'"
    by (simp add: w'_def)
  moreover have "voters reg' = (voters reg)(x \<mapsto>
       \<lparr>epic_hash = x, aadhaar_hash = a, biometric_hash = b, registered_at = now,
        is_active = True, is_struck_off = True, has_voted = False\<rparr>)"
    by (simp add: reg'_def)
  moreover have "unat (total_registered reg') = unat (total_registered reg) + 1"
    using fresh by (simp add: reg'_def unat_succ_u64)
  ultimately show "\<exists>w' reg'. register_voter voting now w voter x a b = Inr w'
               \<and> global_Registry w' voting = Some reg'
               \<and> voters reg' = (voters reg)(x \<mapsto>
                    \<lparr>epic_hash = x, aadhaar_hash = a, biometric_hash = b, registered_at = now,
                     is_active = True, is_struck_off = True, has_voted = False\<rparr>)
               \<and> unat (total_registered reg') = unat (total_registered reg) + 1
               \<and> (\<forall>ts voter2 now2 a2 b2.
                     register_voter voting now2 (run voting w' ts) voter2 x a2 b2 =
                       Inl (ABORTED Voter_registry EALREADY_REGISTERED)
                   \<and> apply_tx voting (run voting w' ts) (voter2, now2, Register_voter x a2 b2) =
                       run voting w' ts)"
    using ok later by (auto simp: apply_tx_def)
qed

theorem register_voter_at_most_once_witness:
  "global_Registry demo_init 1 = Some \<lparr>voters = Map.empty, total_registered = 0, admin = 1\<rparr>
   \<and> execute 1 demo_init (2, 5, Register_voter [1] [11] [21]) = Inr demo_world
   \<and> registered 1 demo_world [1]
   \<and> register_voter 1 6 demo_world 3 [1] [12] [22] =
        Inl (ABORTED Voter_registry EALREADY_REGISTERED)
   \<and> apply_tx 1 demo_world (3, 6, Register_voter [1] [12] [22]) = demo_world
   \<and> apply_tx 1 (run 1 demo_world [(2, 7, Mark_voted [1])]) (3, 8, Register_voter [1] [12] [22])
        = run 1 demo_world [(2, 7, Mark_voted [1])]"
proof -
  let ?reg0 = "\<lparr>voters = Map.empty, total_registered = 0, admin = (1::address)\<rparr>"
  let ?reg1 = "\<lparr>voters = [[1] \<mapsto>
        \<lparr>epic_hash = [1], aadhaar_hash = [11], biometric_hash = [21], registered_at = 5,
         is_active = True, is_struck_off = True, has_voted = False\<rparr>],
        total_registered = 1, admin = (1::address)\<rparr>"
  have h0: "global_Registry demo_init 1 = Some ?reg0"
    by (simp add: demo_init_eq)
  have h1: "global_Registry demo_world 1 = Some ?reg1"
    by (simp add: demo_world_eq)
  have fresh: "voters ?reg0 [1] = None \<and> unat (total_registered ?reg0) + 1 < 2 ^ 64"
    by simp
  have present: "voters ?reg1 [1] \<noteq> None"
    by simp
  have ex: "execute 1 demo_init (2, 5, Register_voter [1] [11] [21]) = Inr demo_world"
    by (simp add: demo_world_def apply_tx_def demo_init_eq op_defs)
  from register_voter_at_most_once [OF h0, of "[1]" 5 2 "[11]" "[21]"] fresh
  obtain w' where w': "register_voter 1 5 demo_init 2 [1] [11] [21] = Inr w'"
    and again: "\<And>ts voter2 now2 a2 b2.
       register_voter 1 now2 (run 1 w' ts) voter2 [1] a2 b2 =
         Inl (ABORTED Voter_registry EALREADY_REGISTERED)
       \<and> apply_tx 1 (run 1 w' ts) (voter2, now2, Register_voter [1] a2 b2) = run 1 w' ts"
    by blast
  from w' ex have "w' = demo_world" by simp
  with again [of 8 "[(2, 7, Mark_voted [1])]" 3 "[12]" "[22]"]
    register_voter_at_most_once [OF h1, of "[1]" 6 3 "[12]" "[22]"] present h0 ex
  show ?thesis
    by (simp add: registered_def demo_world_eq)
qed

text \<open>
  C7. \<open>is_voter_eligible\<close> only reads the registry and is true exactly when a record
  exists for the commitment with \<open>is_active\<close> and not \<open>has_voted\<close>. After a successful
  \<open>register_voter\<close> it is true, after \<open>mark_voted\<close> false, after \<open>reset_voted_status\<close>
  true again; for any registered voter it is false after \<open>mark_voted\<close> and equals the
  record's \<open>is_active\<close> after \<open>reset_voted_status\<close>.
\<close>

theorem eligibility_lifecycle:
  "(global_Registry w voting = Some reg \<longrightarrow>
      is_voter_eligible voting w x =
        Inr (\<exists>r. voters reg x = Some r \<and> is_active r \<and> \<not> has_voted r))
   \<and> (register_voter voting t0 w voter x a b = Inr w1 \<longrightarrow>
        is_voter_eligible voting w1 x = Inr True
        \<and> (\<exists>w2. mark_voted voting t1 w1 x = Inr w2
              \<and> is_voter_eligible voting w2 x = Inr False
              \<and> (\<exists>w3. reset_voted_status voting w2 x = Inr w3
                    \<and> is_voter_eligible voting w3 x = Inr True)))
   \<and> (global_Registry w voting = Some reg \<and> voters reg x = Some r \<longrightarrow>
        (\<exists>w2. mark_voted voting t1 w x = Inr w2 \<and> is_voter_eligible voting w2 x = Inr False)
        \<and> (\<exists>w3. reset_voted_status voting w x = Inr w3
              \<and> is_voter_eligible voting w3 x = Inr (is_active r)))"
  by (auto simp: is_voter_eligible_eq register_voter_eq mark_voted_eq reset_voted_status_eq
      split: option.splits if_splits)

theorem eligibility_lifecycle_witness:
  "global_Registry demo_world 1 = Some \<lparr>voters = [[1] \<mapsto>
        \<lparr>epic_hash = [1], aadhaar_hash = [11], biometric_hash = [21], registered_at = 5,
         is_active = True, is_struck_off = True, has_voted = False\<rparr>],
        total_registered = 1, admin = 1\<rparr>
   \<and> register_voter 1 5 demo_init 2 [1] [11] [21] = Inr demo_world
   \<and> is_voter_eligible 1 demo_world [1] = Inr True
   \<and> is_voter_eligible 1 demo_world [2] = Inr False
   \<and> is_voter_eligible 1 (apply_tx 1 demo_world (3, 6, Mark_voted [1])) [1] = Inr False
   \<and> is_voter_eligible 1
        (run 1 demo_world [(3, 6, Mark_voted [1]), (4, 7, Reset_voted_status [1])]) [1] = Inr True"
proof -
  let ?r = "\<lparr>epic_hash = [1], aadhaar_hash = [11], biometric_hash = [21], registered_at = 5,
         is_active = True, is_struck_off = True, has_voted = False\<rparr>"
  let ?reg1 = "\<lparr>voters = [[1] \<mapsto> ?r], total_registered = 1, admin = (1::address)\<rparr>"
  have h1: "global_Registry demo_world 1 = Some ?reg1"
    by (simp add: demo_world_eq)
  have ex: "register_voter 1 5 demo_init 2 [1] [11] [21] = Inr demo_world"
    by (simp add: demo_world_def apply_tx_def demo_init_eq op_defs)
  have r: "voters ?reg1 [1] = Some ?r"
    by simp
  note inst0 = eligibility_lifecycle [of demo_init 1 _ "[1]" 5 2 "[11]" "[21]" demo_world 6]
  note inst1 = eligibility_lifecycle [of demo_world 1 ?reg1 "[1]" _ _ _ _ _ 6 ?r]
  note inst2 = eligibility_lifecycle [of demo_world 1 ?reg1 "[2]"]
  from inst0 ex obtain w2 w3 where
    "is_voter_eligible 1 demo_world [1] = Inr True"
    "mark_voted 1 6 demo_world [1] = Inr w2" "is_voter_eligible 1 w2 [1] = Inr False"
    "reset_voted_status 1 w2 [1] = Inr w3" "is_voter_eligible 1 w3 [1] = Inr True"
    by blast
  moreover from inst1 h1 r obtain w2' where
    "mark_voted 1 6 demo_world [1] = Inr w2'" "is_voter_eligible 1 w2' [1] = Inr False"
    by blast
  moreover from inst2 h1 have "is_voter_eligible 1 demo_world [2] = Inr False"
    by simp
  ultimately show ?thesis
    using h1 ex by (simp add: apply_tx_def)
qed

text \<open>
  C10. \<open>mark_voted\<close> and \<open>reset_voted_status\<close> take no signer: the outcome of either
  transaction is the same for every sender. With the registry published, each aborts with
  \<open>ENOT_REGISTERED\<close> exactly when the commitment has no record; otherwise it succeeds
  and sets, respectively clears, \<open>has_voted\<close>, after which the voter is not eligible,
  respectively eligible iff active.
\<close>

theorem mark_and_reset_unauthenticated:
  "execute voting w (sender1, now, Mark_voted x) = execute voting w (sender2, now, Mark_voted x)
   \<and> execute voting w (sender1, now, Reset_voted_status x) =
       execute voting w (sender2, now, Reset_voted_status x)
   \<and> (global_Registry w voting = Some reg \<longrightarrow>
        (execute voting w (sender1, now, Mark_voted x) =
            Inl (ABORTED Voter_registry ENOT_REGISTERED) \<longleftrightarrow> voters reg x = None)
        \<and> (execute voting w (sender1, now, Reset_voted_status x) =
            Inl (ABORTED Voter_registry ENOT_REGISTERED) \<longleftrightarrow> voters reg x = None)
        \<and> (\<forall>r. voters reg x = Some r \<longrightarrow>
              (\<exists>w' reg'. execute voting w (sender1, now, Mark_voted x) = Inr w'
                  \<and> global_Registry w' voting = Some reg'
                  \<and> voters reg' = (voters reg)(x \<mapsto> r\<lparr>has_voted := True\<rparr>)
                  \<and> is_voter_eligible voting w' x = Inr False)
              \<and> (\<exists>w' reg'. execute voting w (sender1, now, Reset_voted_status x) = Inr w'
                  \<and> global_Registry w' voting = Some reg'
                  \<and> voters reg' = (voters reg)(x \<mapsto> r\<lparr>has_voted := False\<rparr>)
                  \<and> is_voter_eligible voting w' x = Inr (is_active r))))"
  by (auto simp: is_voter_eligible_eq mark_voted_eq reset_voted_status_eq
      split: option.splits if_splits)

theorem mark_and_reset_unauthenticated_witness:
  "global_Registry demo_world 1 = Some \<lparr>voters = [[1] \<mapsto>
        \<lparr>epic_hash = [1], aadhaar_hash = [11], biometric_hash = [21], registered_at = 5,
         is_active = True, is_struck_off = True, has_voted = False\<rparr>],
        total_registered = 1, admin = 1\<rparr>
   \<and> execute 1 demo_world (9, 6, Mark_voted [2]) = Inl (ABORTED Voter_registry ENOT_REGISTERED)
   \<and> execute 1 demo_world (9, 6, Reset_voted_status [2]) =
        Inl (ABORTED Voter_registry ENOT_REGISTERED)
   \<and> execute 1 demo_world (9, 6, Mark_voted [1]) \<noteq> Inl (ABORTED Voter_registry ENOT_REGISTERED)
   \<and> (\<exists>w'. execute 1 demo_world (9, 6, Mark_voted [1]) = Inr w'
          \<and> is_voter_eligible 1 w' [1] = Inr False)
   \<and> (\<exists>w'. execute 1 demo_world (9, 6, Reset_voted_status [1]) = Inr w'
          \<and> is_voter_eligible 1 w' [1] = Inr True)"
proof -
  let ?r = "\<lparr>epic_hash = [1], aadhaar_hash = [11], biometric_hash = [21], registered_at = 5,
         is_active = True, is_struck_off = True, has_voted = False\<rparr>"
  let ?reg1 = "\<lparr>voters = [[1] \<mapsto> ?r], total_registered = 1, admin = (1::address)\<rparr>"
  have h1: "global_Registry demo_world 1 = Some ?reg1"
    by (simp add: demo_world_eq)
  have r: "voters ?reg1 [1] = Some ?r" and n: "voters ?reg1 [2] = None"
    by simp_all
  note present = mark_and_reset_unauthenticated [of 1 demo_world 9 6 "[1]" 1 ?reg1]
  note absent = mark_and_reset_unauthenticated [of 1 demo_world 9 6 "[2]" 1 ?reg1]
  from present h1 r have
    "execute 1 demo_world (9, 6, Mark_voted [1]) \<noteq> Inl (ABORTED Voter_registry ENOT_REGISTERED)"
    "\<exists>w'. execute 1 demo_world (9, 6, Mark_voted [1]) = Inr w'
          \<and> is_voter_eligible 1 w' [1] = Inr False"
    "\<exists>w'. execute 1 demo_world (9, 6, Reset_voted_status [1]) = Inr w'
          \<and> is_voter_eligible 1 w' [1] = Inr True"
    by auto
  moreover from absent h1 n have
    "execute 1 demo_world (9, 6, Mark_voted [2]) = Inl (ABORTED Voter_registry ENOT_REGISTERED)"
    "execute 1 demo_world (9, 6, Reset_voted_status [2]) =
        Inl (ABORTED Voter_registry ENOT_REGISTERED)"
    by auto
  ultimately show ?thesis
    using h1 by blast
qed

section \<open>Ballot box and bulletin board\<close>

lemmas demo_defs = demo_cast1_def demo_reset_def demo_cast2_def demo_started_def
  demo_finalized_def apply_tx_def demo_world_eq demo_init_eq

lemma demo_cast1_ok:
  "execute 1 demo_world (2, 12, Cast_vote [1] [31] [41] [51] [61]) = Inr demo_cast1"
  by (simp add: demo_defs op_defs)

lemma demo_reset_ok: "execute 1 demo_cast1 (2, 13, Reset_voted_status [1]) = Inr demo_reset"
  by (simp add: demo_defs op_defs)

lemma demo_cast2_ok:
  "execute 1 demo_reset (2, 15, Cast_vote [1] [31] [42] [52] [61]) = Inr demo_cast2"
  by (simp add: demo_defs op_defs)

lemma demo_started_ok: "execute 1 demo_cast2 (1, 25, Start_tally 1) = Inr demo_started"
  by (simp add: demo_defs op_defs)

lemma demo_finalized_ok:
  "execute 1 demo_started (1, 30, Finalize_tally 1 0 [72] [73]) = Inr demo_finalized"
  by (simp add: demo_defs op_defs)

lemma record_vote_eq:
  "record_vote voting now w publisher tch cmt =
     (case global_BulletinBoard w voting of
        None \<Rightarrow> Inl MISSING_DATA
      | Some board \<Rightarrow>
          if records board tch = None \<and> \<not> unat (total_records board) + 1 < 2 ^ 64
          then Inl ARITHMETIC_ERROR
          else Inr (w\<lparr>global_BulletinBoard := (global_BulletinBoard w)(voting \<mapsto>
                  board\<lparr>records := (records board)(tch \<mapsto>
                          \<lparr>commitment = cmt, timestamp = now, is_valid = True,
                           merkle_proof = []\<rparr>),
                        total_records := (if records board tch = None
                           then total_records board + 1 else total_records board)\<rparr>),
                emitted := emitted w @ [RecordPublishedEvent tch cmt now]\<rparr>))"
  by (auto simp: record_vote_def table_defs add_u64_one Let_def split: option.splits)

lemma cast_vote_InrD:
  assumes "cast_vote voting now w voter epic vcommit vhash ipfs tch = Inr w'"
  shows "\<exists>box reg v. global_BallotBox w voting = Some box
     \<and> polling_start box \<le> now \<and> now \<le> polling_end box
     \<and> global_Registry w voting = Some reg \<and> voters reg epic = Some v
     \<and> is_active v \<and> \<not> has_voted v
     \<and> (votes box tch = None \<longrightarrow> unat (eb_vote_count box) + 1 < 2 ^ 64)
     \<and> w' = w\<lparr>global_BallotBox := (global_BallotBox w)(voting \<mapsto>
                box\<lparr>votes := (votes box)(tch \<mapsto>
                       \<lparr>voter_commitment = vcommit, vote_hash = vhash,
                        ipfs_hash = ipfs, tracking_code_hash = tch, cast_at = now,
                        is_final = True\<rparr>),
                     eb_vote_count := (if votes box tch = None
                        then eb_vote_count box + 1 else eb_vote_count box)\<rparr>),
              global_Registry := (global_Registry w)(voting \<mapsto>
                reg\<lparr>voters := (voters reg)(epic \<mapsto> v\<lparr>has_voted := True\<rparr>)\<rparr>),
              emitted := emitted w @
                (if votes box tch = None then [] else [VoteReplacedEvent tch now]) @
                [VotingEvent epic now, VoteCastEvent tch now]\<rparr>"
proof (cases "global_BallotBox w voting")
  case None
  with assms show ?thesis by (simp add: cast_vote_eq)
next
  case box: (Some box)
  show ?thesis
  proof (cases "global_Registry w voting")
    case None
    with assms box show ?thesis by (simp add: cast_vote_eq split: if_splits)
  next
    case reg: (Some reg)
    show ?thesis
    proof (cases "voters reg epic")
      case None
      with assms box reg show ?thesis by (simp add: cast_vote_eq split: if_splits)
    next
      case (Some v)
      with assms box reg show ?thesis
        by (simp add: cast_vote_eq not_less split: if_splits)
    qed
  qed
qed

text \<open>
  C3, as the code has it. The polling window is the closed interval from
  \<open>polling_start\<close> to \<open>polling_end\<close>: \<open>cast_vote\<close> aborts with \<open>EPOLLING_NOT_STARTED\<close>
  before the start, with \<open>EPOLLING_ENDED\<close> strictly after the end (the start having
  passed), and succeeds anywhere in between, both bounds included, for an eligible voter
  whose vote does not overflow the counter; \<open>is_polling_active\<close> is true exactly on the
  closed interval.
\<close>

theorem polling_window_closed:
  assumes "global_BallotBox w voting = Some box"
  shows "(now < polling_start box \<longrightarrow>
            cast_vote voting now w voter epic vcommit vhash ipfs tch =
              Inl (ABORTED Encrypted_ballot EPOLLING_NOT_STARTED))
       \<and> (polling_start box \<le> now \<and> polling_end box < now \<longrightarrow>
            cast_vote voting now w voter epic vcommit vhash ipfs tch =
              Inl (ABORTED Encrypted_ballot EPOLLING_ENDED))
       \<and> (polling_start box \<le> now \<and> now \<le> polling_end box
            \<and> is_voter_eligible voting w epic = Inr True
            \<and> (votes box tch = None \<longrightarrow> unat (eb_vote_count box) + 1 < 2 ^ 64) \<longrightarrow>
            (\<exists>w'. cast_vote voting now w voter epic vcommit vhash ipfs tch = Inr w'))
       \<and> is_polling_active voting now w =
            Inr (polling_start box \<le> now \<and> now \<le> polling_end box)"
  using assms
  by (auto simp: cast_vote_eq is_voter_eligible_eq is_polling_active_def
      split: option.splits)

theorem polling_window_closed_witness:
  "global_BallotBox demo_world 1 =
     Some \<lparr>votes = Map.empty, eb_vote_count = 0, polling_start = 10, polling_end = 20,
           eb_admin = 1, merkle_root = []\<rparr>
   \<and> is_voter_eligible 1 demo_world [1] = Inr True
   \<and> cast_vote 1 9 demo_world 2 [1] [31] [41] [51] [61] =
        Inl (ABORTED Encrypted_ballot EPOLLING_NOT_STARTED)
   \<and> cast_vote 1 21 demo_world 2 [1] [31] [41] [51] [61] =
        Inl (ABORTED Encrypted_ballot EPOLLING_ENDED)
   \<and> (\<exists>w'. cast_vote 1 10 demo_world 2 [1] [31] [41] [51] [61] = Inr w')
   \<and> (\<exists>w'. cast_vote 1 20 demo_world 2 [1] [31] [41] [51] [61] = Inr w')
   \<and> is_polling_active 1 20 demo_world = Inr True
   \<and> is_polling_active 1 21 demo_world = Inr False"
proof -
  let ?box = "\<lparr>votes = Map.empty, eb_vote_count = 0, polling_start = 10, polling_end = 20,
           eb_admin = (1::address), merkle_root = []\<rparr>"
  have h: "global_BallotBox demo_world 1 = Some ?box"
    by (simp add: demo_world_eq demo_init_eq)
  have e: "is_voter_eligible 1 demo_world [1] = Inr True"
    by (simp add: demo_world_eq demo_init_eq is_voter_eligible_eq)
  show ?thesis
    using h e
      polling_window_closed [OF h, of 9 2 "[1]" "[31]" "[41]" "[51]" "[61]"]
      polling_window_closed [OF h, of 21 2 "[1]" "[31]" "[41]" "[51]" "[61]"]
      polling_window_closed [OF h, of 10 2 "[1]" "[31]" "[41]" "[51]" "[61]"]
      polling_window_closed [OF h, of 20 2 "[1]" "[31]" "[41]" "[51]" "[61]"]
    by simp
qed

text \<open>
  At \<open>now = polling_end\<close> the cast goes through and polling is reported active, where
  the half-open window of C3 asks for \<open>EPOLLING_ENDED\<close> and for inactive.
\<close>

theorem polling_end_inclusive_counterexample:
  "map_option polling_end (global_BallotBox demo_world 1) = Some 20
   \<and> \<not> isl (cast_vote 1 20 demo_world 2 [1] [31] [41] [51] [61])
   \<and> cast_vote 1 20 demo_world 2 [1] [31] [41] [51] [61] \<noteq>
        Inl (ABORTED Encrypted_ballot EPOLLING_ENDED)
   \<and> is_polling_active 1 20 demo_world = Inr True"
  by (simp add: demo_world_eq demo_init_eq op_defs is_polling_active_def)

text \<open>
  C1, as the code has it. A successful \<open>cast_vote\<close> leaves the bulletin board as it was
  (so \<open>get_vote_record\<close> answers what it answered before), while \<open>verify_vote\<close> reports
  the new vote hash and cast time. The board is written by the separate entry function
  \<open>record_vote\<close>: after a successful \<open>record_vote\<close> of commitment \<open>c\<close> at time \<open>t\<close> for the
  same code, \<open>get_vote_record\<close> reports \<open>(c, t, true)\<close>, which agrees with \<open>verify_vote\<close>
  when \<open>c\<close> is the vote hash and \<open>t\<close> the cast time.
\<close>

theorem cast_vote_no_mirror:
  "cast_vote voting now w voter epic vcommit vhash ipfs tch = Inr w' \<longrightarrow>
     global_BulletinBoard w' = global_BulletinBoard w
     \<and> get_vote_record voting w' tch = get_vote_record voting w tch
     \<and> verify_vote voting w' tch = Inr (True, vhash, now)
     \<and> (\<forall>publisher t c w''. record_vote voting t w' publisher tch c = Inr w'' \<longrightarrow>
           get_vote_record voting w'' tch = Inr (c, t, True)
           \<and> verify_vote voting w'' tch = Inr (True, vhash, now))"
proof
  assume "cast_vote voting now w voter epic vcommit vhash ipfs tch = Inr w'"
  from cast_vote_InrD [OF this] obtain box reg v where
    box: "global_BallotBox w voting = Some box" and
    w': "w' = w\<lparr>global_BallotBox := (global_BallotBox w)(voting \<mapsto>
                box\<lparr>votes := (votes box)(tch \<mapsto>
                       \<lparr>voter_commitment = vcommit, vote_hash = vhash,
                        ipfs_hash = ipfs, tracking_code_hash = tch, cast_at = now,
                        is_final = True\<rparr>),
                     eb_vote_count := (if votes box tch = None
                        then eb_vote_count box + 1 else eb_vote_count box)\<rparr>),
              global_Registry := (global_Registry w)(voting \<mapsto>
                reg\<lparr>voters := (voters reg)(epic \<mapsto> v\<lparr>has_voted := True\<rparr>)\<rparr>),
              emitted := emitted w @
                (if votes box tch = None then [] else [VoteReplacedEvent tch now]) @
                [VotingEvent epic now, VoteCastEvent tch now]\<rparr>"
    by blast
  have board: "global_BulletinBoard w' = global_BulletinBoard w"
    by (simp add: w')
  have ballot: "verify_vote voting w' tch = Inr (True, vhash, now)"
    by (simp add: w' verify_vote_def table_defs)
  have rec: "get_vote_record voting w'' tch = Inr (c, t, True)
      \<and> verify_vote voting w'' tch = Inr (True, vhash, now)"
    if r: "record_vote voting t w' publisher tch c = Inr w''" for publisher t c w''
  proof (cases "global_BulletinBoard w' voting")
    case None
    with r show ?thesis by (simp add: record_vote_eq)
  next
    case (Some b)
    with r have "w'' = w'\<lparr>global_BulletinBoard := (global_BulletinBoard w')(voting \<mapsto>
                  b\<lparr>records := (records b)(tch \<mapsto>
                          \<lparr>commitment = c, timestamp = t, is_valid = True,
                           merkle_proof = []\<rparr>),
                        total_records := (if records b tch = None
                           then total_records b + 1 else total_records b)\<rparr>),
                emitted := emitted w' @ [RecordPublishedEvent tch c t]\<rparr>"
      by (auto simp: record_vote_eq split: if_splits)
    then show ?thesis
      using ballot by (simp add: get_vote_record_def verify_vote_def table_defs)
  qed
  show "global_BulletinBoard w' = global_BulletinBoard w
     \<and> get_vote_record voting w' tch = get_vote_record voting w tch
     \<and> verify_vote voting w' tch = Inr (True, vhash, now)
     \<and> (\<forall>publisher t c w''. record_vote voting t w' publisher tch c = Inr w'' \<longrightarrow>
           get_vote_record voting w'' tch = Inr (c, t, True)
           \<and> verify_vote voting w'' tch = Inr (True, vhash, now))"
    using board ballot rec by (simp add: get_vote_record_def)
qed

theorem cast_vote_no_mirror_witness:
  "cast_vote 1 12 demo_world 2 [1] [31] [41] [51] [61] = Inr demo_cast1
   \<and> global_BulletinBoard demo_cast1 = global_BulletinBoard demo_world
   \<and> verify_vote 1 demo_cast1 [61] = Inr (True, [41], 12)
   \<and> get_vote_record 1 (apply_tx 1 demo_cast1 (2, 12, Record_vote [61] [41])) [61] =
        Inr ([41], 12, True)
   \<and> verify_vote 1 (apply_tx 1 demo_cast1 (2, 12, Record_vote [61] [41])) [61] =
        Inr (True, [41], 12)"
proof -
  have c: "cast_vote 1 12 demo_world 2 [1] [31] [41] [51] [61] = Inr demo_cast1"
    using demo_cast1_ok by simp
  have "\<exists>w''. record_vote 1 12 demo_cast1 2 [61] [41] = Inr w''"
    by (simp add: demo_defs op_defs)
  then obtain w'' where r: "record_vote 1 12 demo_cast1 2 [61] [41] = Inr w''"
    by blast
  then have a: "apply_tx 1 demo_cast1 (2, 12, Record_vote [61] [41]) = w''"
    by (simp add: apply_tx_def)
  show ?thesis
    using cast_vote_no_mirror [of 1 12 demo_world 2 "[1]" "[31]" "[41]" "[51]" "[61]" demo_cast1]
      c r a by simp
qed

text \<open>
  After the successful cast of the concrete election the ballot box knows the code and
  the bulletin board answers not-found.
\<close>

theorem cast_vote_no_mirror_counterexample:
  "execute 1 demo_world (2, 12, Cast_vote [1] [31] [41] [51] [61]) = Inr demo_cast1
   \<and> verify_vote 1 demo_cast1 [61] = Inr (True, [41], 12)
   \<and> get_vote_record 1 demo_cast1 [61] = Inr ([], 0, False)
   \<and> get_vote_record 1 demo_cast1 [61] \<noteq> Inr ([41], 12, True)"
  by (simp add: demo_defs op_defs verify_vote_def get_vote_record_def)

section \<open>Tally validator\<close>

lemma start_tally_eq:
  "start_tally voting now w admin_addr n =
     (case global_TallyRecord w voting of
        None \<Rightarrow> Inl MISSING_DATA
      | Some tally \<Rightarrow>
          if admin_addr \<noteq> tv_admin tally then Inl (ABORTED Tally_validator TV_EUNAUTHORIZED)
          else if now < polling_end_time tally
          then Inl (ABORTED Tally_validator EPOLLING_NOT_ENDED)
          else if is_finalized tally then Inl (ABORTED Tally_validator EALREADY_FINALIZED)
          else Inr (w\<lparr>global_TallyRecord := (global_TallyRecord w)(voting \<mapsto>
                        tally\<lparr>total_votes := n, tally_start_time := now\<rparr>),
                      emitted := emitted w @ [TallyStartedEvent (election_id tally) now n]\<rparr>))"
  by (simp add: start_tally_def not_le split: option.splits)

lemma record_result_eq:
  "record_result voting w admin_addr cid count pct =
     (case global_TallyRecord w voting of
        None \<Rightarrow> Inl MISSING_DATA
      | Some tally \<Rightarrow>
          if admin_addr \<noteq> tv_admin tally then Inl (ABORTED Tally_validator TV_EUNAUTHORIZED)
          else if is_finalized tally then Inl (ABORTED Tally_validator EALREADY_FINALIZED)
          else Inr (w\<lparr>global_TallyRecord := (global_TallyRecord w)(voting \<mapsto>
                        tally\<lparr>results := (results tally)(cid \<mapsto>
                          \<lparr>candidate_id = cid, vote_count = count, percentage = pct\<rparr>)\<rparr>),
                      emitted := emitted w @ [ResultPublishedEvent cid count pct]\<rparr>))"
  by (simp add: record_result_def table_defs Let_def split: option.splits)

text \<open>
  C5, as the code has it. Called by the admin, \<open>start_tally\<close> aborts with
  \<open>EPOLLING_NOT_ENDED\<close> before \<open>polling_end_time\<close> and with \<open>EALREADY_FINALIZED\<close> once
  the tally is finalized; it has no other state requirement, so after a successful
  \<open>start_tally\<close> a second one succeeds too and overwrites \<open>total_votes\<close> and
  \<open>tally_start_time\<close>. After a successful \<open>finalize_tally\<close> a second one aborts with
  \<open>EALREADY_FINALIZED\<close>, and \<open>get_zkp_proof\<close> before finalization aborts with
  \<open>ENOT_FINALIZED\<close>.
\<close>

theorem tally_sequencing:
  assumes "global_TallyRecord w voting = Some tally"
  shows "(now < polling_end_time tally \<longrightarrow>
            start_tally voting now w (tv_admin tally) n =
              Inl (ABORTED Tally_validator EPOLLING_NOT_ENDED))
       \<and> (polling_end_time tally \<le> now \<and> is_finalized tally \<longrightarrow>
            start_tally voting now w (tv_admin tally) n =
              Inl (ABORTED Tally_validator EALREADY_FINALIZED))
       \<and> (polling_end_time tally \<le> now \<and> \<not> is_finalized tally \<longrightarrow>
            (\<exists>w1. start_tally voting now w (tv_admin tally) n = Inr w1
               \<and> (\<forall>now2 n2. polling_end_time tally \<le> now2 \<longrightarrow>
                     (\<exists>w2 tally2. start_tally voting now2 w1 (tv_admin tally) n2 = Inr w2
                        \<and> global_TallyRecord w2 voting = Some tally2
                        \<and> total_votes tally2 = n2 \<and> tally_start_time tally2 = now2))))
       \<and> (\<forall>w1. finalize_tally voting now w (tv_admin tally) valid invalid rhash prf = Inr w1 \<longrightarrow>
              finalize_tally voting now2 w1 (tv_admin tally) valid2 invalid2 rhash2 prf2 =
                Inl (ABORTED Tally_validator EALREADY_FINALIZED))
       \<and> (\<not> is_finalized tally \<longrightarrow>
            get_zkp_proof voting w = Inl (ABORTED Tally_validator ENOT_FINALIZED))"
  using assms
  by (auto simp: start_tally_eq finalize_tally_def get_zkp_proof_def split: if_splits)

theorem tally_sequencing_witness:
  "global_TallyRecord demo_cast2 1 = Some \<lparr>election_id = [7], results = Map.empty,
        total_votes = 0, valid_votes = 0, invalid_votes = 0, polling_end_time = 20,
        tally_start_time = 0, tally_end_time = 0, is_finalized = False, tv_admin = 1,
        result_hash = [], zkp_proof = []\<rparr>
   \<and> start_tally 1 19 demo_cast2 1 1 = Inl (ABORTED Tally_validator EPOLLING_NOT_ENDED)
   \<and> start_tally 1 25 demo_cast2 1 1 = Inr demo_started
   \<and> (\<exists>w2. start_tally 1 26 demo_started 1 2 = Inr w2)
   \<and> finalize_tally 1 30 demo_started 1 1 0 [72] [73] = Inr demo_finalized
   \<and> finalize_tally 1 31 demo_finalized 1 1 0 [72] [73] =
        Inl (ABORTED Tally_validator EALREADY_FINALIZED)
   \<and> start_tally 1 31 demo_finalized 1 1 = Inl (ABORTED Tally_validator EALREADY_FINALIZED)
   \<and> get_zkp_proof 1 demo_started = Inl (ABORTED Tally_validator ENOT_FINALIZED)"
proof -
  let ?t0 = "\<lparr>election_id = [7], results = Map.empty,
        total_votes = 0, valid_votes = 0, invalid_votes = 0, polling_end_time = 20,
        tally_start_time = 0, tally_end_time = 0, is_finalized = False, tv_admin = (1::address),
        result_hash = [], zkp_proof = []\<rparr>"
  let ?t1 = "?t0\<lparr>total_votes := 1, tally_start_time := 25\<rparr>"
  let ?t2 = "?t1\<lparr>valid_votes := 1, invalid_votes := 0, result_hash := [72], zkp_proof := [73],
        tally_end_time := 30, is_finalized := True\<rparr>"
  have h0: "global_TallyRecord demo_cast2 1 = Some ?t0"
    by (simp add: demo_defs op_defs)
  have h1: "global_TallyRecord demo_started 1 = Some ?t1"
    by (simp add: demo_defs op_defs)
  have h2: "global_TallyRecord demo_finalized 1 = Some ?t2"
    by (simp add: demo_defs op_defs)
  have s: "start_tally 1 25 demo_cast2 1 1 = Inr demo_started"
    using demo_started_ok by simp
  have f: "finalize_tally 1 30 demo_started 1 1 0 [72] [73] = Inr demo_finalized"
    using demo_finalized_ok by simp
  note at19 = tally_sequencing [OF h0, of 19 1 1 0 "[72]" "[73]" 31 1 0 "[72]" "[73]"]
  note at25 = tally_sequencing [OF h0, of 25 1 1 0 "[72]" "[73]" 31 1 0 "[72]" "[73]"]
  note at30 = tally_sequencing [OF h1, of 30 1 1 0 "[72]" "[73]" 31 1 0 "[72]" "[73]"]
  note at31 = tally_sequencing [OF h2, of 31 1 1 0 "[72]" "[73]" 31 1 0 "[72]" "[73]"]
  from at19 have "start_tally 1 19 demo_cast2 1 1 = Inl (ABORTED Tally_validator EPOLLING_NOT_ENDED)"
    by simp
  moreover have "\<exists>w2. start_tally 1 26 demo_started 1 2 = Inr w2"
  proof -
    from at25 s have "\<forall>now2 n2. (20::u64) \<le> now2 \<longrightarrow>
        (\<exists>w2 tally2. start_tally 1 now2 demo_started 1 n2 = Inr w2
           \<and> global_TallyRecord w2 1 = Some tally2
           \<and> total_votes tally2 = n2 \<and> tally_start_time tally2 = now2)"
      by simp
    then have "(20::u64) \<le> 26 \<longrightarrow>
        (\<exists>w2 tally2. start_tally 1 26 demo_started 1 2 = Inr w2
           \<and> global_TallyRecord w2 1 = Some tally2
           \<and> total_votes tally2 = 2 \<and> tally_start_time tally2 = 26)"
      by blast
    then show ?thesis by auto
  qed
  moreover from at30 f have "finalize_tally 1 31 demo_finalized 1 1 0 [72] [73] =
        Inl (ABORTED Tally_validator EALREADY_FINALIZED)"
    "get_zkp_proof 1 demo_started = Inl (ABORTED Tally_validator ENOT_FINALIZED)"
    by simp_all
  moreover from at31 have
    "start_tally 1 31 demo_finalized 1 1 = Inl (ABORTED Tally_validator EALREADY_FINALIZED)"
    by simp
  ultimately show ?thesis
    using h0 s f by blast
qed

text \<open>
  In the concrete election the admin starts the tally at 25 with total 1 and again at 26
  with total 2: the second call does not abort and the summary shows the new total.
\<close>

theorem second_start_tally_counterexample:
  "execute 1 demo_cast2 (1, 25, Start_tally 1) = Inr demo_started
   \<and> \<not> isl (execute 1 demo_started (1, 26, Start_tally 2))
   \<and> execute 1 demo_started (1, 26, Start_tally 2) \<noteq>
        Inl (ABORTED Tally_validator EALREADY_FINALIZED)
   \<and> get_tally_summary 1 demo_started = Inr (1, 0, 0, False, 0)
   \<and> get_tally_summary 1 (apply_tx 1 demo_started (1, 26, Start_tally 2)) =
        Inr (2, 0, 0, False, 0)"
  by (simp add: demo_defs op_defs get_tally_summary_def)

lemma finalize_tally_eq:
  "finalize_tally voting now w admin_addr valid invalid rhash prf =
     (case global_TallyRecord w voting of
        None \<Rightarrow> Inl MISSING_DATA
      | Some tally \<Rightarrow>
          if admin_addr \<noteq> tv_admin tally then Inl (ABORTED Tally_validator TV_EUNAUTHORIZED)
          else if is_finalized tally then Inl (ABORTED Tally_validator EALREADY_FINALIZED)
          else Inr (w\<lparr>global_TallyRecord := (global_TallyRecord w)(voting \<mapsto>
                        tally\<lparr>valid_votes := valid, invalid_votes := invalid,
                              result_hash := rhash, zkp_proof := prf,
                              tally_end_time := now, is_finalized := True\<rparr>),
                      emitted := emitted w @
                        [TallyFinalizedEvent (election_id tally) now (total_votes tally) valid]\<rparr>))"
  by (simp add: finalize_tally_def)

lemma tally_execute:
  assumes "global_TallyRecord w voting = Some tally" and "execute voting w t = Inr w'"
  shows "\<exists>tally1. global_TallyRecord w' voting = Some tally1
     \<and> (is_finalized tally \<longrightarrow> tally1 = tally)
     \<and> (result_hash tally1 \<noteq> result_hash tally \<or> zkp_proof tally1 \<noteq> zkp_proof tally \<longrightarrow>
          \<not> is_finalized tally \<and> is_finalized tally1)"
proof -
  obtain sender now c where t: "t = (sender, now, c)" by (cases t)
  show ?thesis
    using assms unfolding t
    by (cases c)
       (auto simp: op_defs start_tally_eq record_result_eq finalize_tally_eq record_vote_eq
         split: option.splits if_splits)
qed

lemma tally_apply_tx:
  assumes "global_TallyRecord w voting = Some tally"
  shows "\<exists>tally1. global_TallyRecord (apply_tx voting w t) voting = Some tally1
     \<and> (is_finalized tally \<longrightarrow> tally1 = tally)
     \<and> (result_hash tally1 \<noteq> result_hash tally \<or> zkp_proof tally1 \<noteq> zkp_proof tally \<longrightarrow>
          \<not> is_finalized tally \<and> is_finalized tally1)"
proof (cases "execute voting w t")
  case (Inl e)
  with assms show ?thesis by (simp add: apply_tx_def)
next
  case (Inr w')
  with tally_execute [OF assms Inr] show ?thesis by (simp add: apply_tx_def)
qed

lemma tally_run:
  assumes "global_TallyRecord w voting = Some tally"
  shows "\<exists>tally'. global_TallyRecord (run voting w ts) voting = Some tally'
     \<and> (is_finalized tally \<longrightarrow> tally' = tally)
     \<and> (\<not> is_finalized tally' \<longrightarrow>
          \<not> is_finalized tally \<and> result_hash tally' = result_hash tally
          \<and> zkp_proof tally' = zkp_proof tally)"
  using assms
proof (induction ts arbitrary: w tally)
  case Nil
  then show ?case by simp
next
  case (Cons t ts)
  from tally_apply_tx [OF Cons.prems, of t] obtain tally1 where
    t1: "global_TallyRecord (apply_tx voting w t) voting = Some tally1"
    and frozen: "is_finalized tally \<longrightarrow> tally1 = tally"
    and once: "result_hash tally1 \<noteq> result_hash tally \<or> zkp_proof tally1 \<noteq> zkp_proof tally \<longrightarrow>
          \<not> is_finalized tally \<and> is_finalized tally1"
    by blast
  from Cons.IH [OF t1] obtain tally' where
    t': "global_TallyRecord (run voting (apply_tx voting w t) ts) voting = Some tally'"
    and frozen': "is_finalized tally1 \<longrightarrow> tally' = tally1"
    and open': "\<not> is_finalized tally' \<longrightarrow>
          \<not> is_finalized tally1 \<and> result_hash tally' = result_hash tally1
          \<and> zkp_proof tally' = zkp_proof tally1"
    by blast
  have "is_finalized tally \<longrightarrow> tally' = tally"
    using frozen frozen' by auto
  moreover have "\<not> is_finalized tally' \<longrightarrow>
          \<not> is_finalized tally \<and> result_hash tally' = result_hash tally
          \<and> zkp_proof tally' = zkp_proof tally"
    using frozen once open' by auto
  ultimately show ?case
    using t' by simp
qed

text \<open>
  C6. The phase of the tally is the flag \<open>is_finalized\<close>. With a tally record published
  at \<open>@voting\<close>, for every transaction and every trace of transactions of any module by
  any sender: the record stays published; once finalized it never changes again (the flag
  stays set, results and totals are frozen); \<open>result_hash\<close> and \<open>zkp_proof\<close> change only in
  the one step that sets the flag, so while the tally is not finalized they have their
  initial values. After finalization \<open>record_result\<close>, \<open>finalize_tally\<close> and \<open>start_tally\<close>
  abort; before it the admin's \<open>finalize_tally\<close> succeeds and writes the flag, the hash
  and the proof.
\<close>

theorem tally_state_invariant:
  assumes "global_TallyRecord w voting = Some tally"
  shows "(\<exists>tally1. global_TallyRecord (apply_tx voting w t) voting = Some tally1
            \<and> (is_finalized tally \<longrightarrow> tally1 = tally)
            \<and> (result_hash tally1 \<noteq> result_hash tally \<or> zkp_proof tally1 \<noteq> zkp_proof tally \<longrightarrow>
                 \<not> is_finalized tally \<and> is_finalized tally1))
       \<and> (\<exists>tally'. global_TallyRecord (run voting w ts) voting = Some tally'
            \<and> (is_finalized tally \<longrightarrow> tally' = tally)
            \<and> (\<not> is_finalized tally' \<longrightarrow>
                 \<not> is_finalized tally \<and> result_hash tally' = result_hash tally
                 \<and> zkp_proof tally' = zkp_proof tally))
       \<and> (is_finalized tally \<longrightarrow>
            record_result voting w sender cid count pct =
              Inl (ABORTED Tally_validator
                (if sender = tv_admin tally then EALREADY_FINALIZED else TV_EUNAUTHORIZED))
            \<and> finalize_tally voting now w sender valid invalid rhash prf =
              Inl (ABORTED Tally_validator
                (if sender = tv_admin tally then EALREADY_FINALIZED else TV_EUNAUTHORIZED))
            \<and> isl (start_tally voting now w sender n))
       \<and> (\<not> is_finalized tally \<longrightarrow>
            (\<exists>w1 tally1. finalize_tally voting now w (tv_admin tally) valid invalid rhash prf
                 = Inr w1
               \<and> global_TallyRecord w1 voting = Some tally1
               \<and> is_finalized tally1 \<and> result_hash tally1 = rhash \<and> zkp_proof tally1 = prf))"
proof (intro conjI)
  show "\<exists>tally1. global_TallyRecord (apply_tx voting w t) voting = Some tally1
            \<and> (is_finalized tally \<longrightarrow> tally1 = tally)
            \<and> (result_hash tally1 \<noteq> result_hash tally \<or> zkp_proof tally1 \<noteq> zkp_proof tally \<longrightarrow>
                 \<not> is_finalized tally \<and> is_finalized tally1)"
    by (rule tally_apply_tx [OF assms])
  show "\<exists>tally'. global_TallyRecord (run voting w ts) voting = Some tally'
            \<and> (is_finalized tally \<longrightarrow> tally' = tally)
            \<and> (\<not> is_finalized tally' \<longrightarrow>
                 \<not> is_finalized tally \<and> result_hash tally' = result_hash tally
                 \<and> zkp_proof tally' = zkp_proof tally)"
    by (rule tally_run [OF assms])
  show "is_finalized tally \<longrightarrow>
            record_result voting w sender cid count pct =
              Inl (ABORTED Tally_validator
                (if sender = tv_admin tally then EALREADY_FINALIZED else TV_EUNAUTHORIZED))
            \<and> finalize_tally voting now w sender valid invalid rhash prf =
              Inl (ABORTED Tally_validator
                (if sender = tv_admin tally then EALREADY_FINALIZED else TV_EUNAUTHORIZED))
            \<and> isl (start_tally voting now w sender n)"
    using assms by (simp add: record_result_eq finalize_tally_eq start_tally_eq)
  show "\<not> is_finalized tally \<longrightarrow>
            (\<exists>w1 tally1. finalize_tally voting now w (tv_admin tally) valid invalid rhash prf
                 = Inr w1
               \<and> global_TallyRecord w1 voting = Some tally1
               \<and> is_finalized tally1 \<and> result_hash tally1 = rhash \<and> zkp_proof tally1 = prf)"
    using assms by (simp add: finalize_tally_eq)
qed

theorem tally_state_invariant_witness:
  "global_TallyRecord demo_finalized 1 = Some \<lparr>election_id = [7], results = Map.empty,
        total_votes = 1, valid_votes = 1, invalid_votes = 0, polling_end_time = 20,
        tally_start_time = 25, tally_end_time = 30, is_finalized = True, tv_admin = 1,
        result_hash = [72], zkp_proof = [73]\<rparr>
   \<and> global_TallyRecord
        (run 1 demo_finalized [(1, 31, Record_result [81] 5 100), (1, 32, Start_tally 9),
           (1, 33, Finalize_tally 0 1 [74] [75])]) 1 = global_TallyRecord demo_finalized 1
   \<and> record_result 1 demo_finalized 1 [81] 5 100 =
        Inl (ABORTED Tally_validator EALREADY_FINALIZED)
   \<and> finalize_tally 1 33 demo_finalized 1 0 1 [74] [75] =
        Inl (ABORTED Tally_validator EALREADY_FINALIZED)
   \<and> (\<exists>tally1. global_TallyRecord (apply_tx 1 demo_started (1, 30, Finalize_tally 1 0 [72] [73])) 1
          = Some tally1 \<and> is_finalized tally1 \<and> result_hash tally1 = [72]
          \<and> zkp_proof tally1 = [73])
   \<and> (\<exists>tally1. global_TallyRecord (apply_tx 1 demo_started (1, 26, Record_result [81] 5 100)) 1
          = Some tally1 \<and> \<not> is_finalized tally1 \<and> result_hash tally1 = []
          \<and> zkp_proof tally1 = [])"
proof -
  let ?t1 = "\<lparr>election_id = [7], results = Map.empty,
        total_votes = 1, valid_votes = 0, invalid_votes = 0, polling_end_time = 20,
        tally_start_time = 25, tally_end_time = 0, is_finalized = False, tv_admin = (1::address),
        result_hash = [], zkp_proof = []\<rparr>"
  let ?t2 = "\<lparr>election_id = [7], results = Map.empty,
        total_votes = 1, valid_votes = 1, invalid_votes = 0, polling_end_time = 20,
        tally_start_time = 25, tally_end_time = 30, is_finalized = True, tv_admin = (1::address),
        result_hash = [72], zkp_proof = [73]\<rparr>"
  let ?ts = "[(1, 31, Record_result [81] 5 100), (1, 32, Start_tally 9),
           (1, 33, Finalize_tally 0 1 [74] [75])]"
  have h1: "global_TallyRecord demo_started 1 = Some ?t1"
    by (simp add: demo_defs op_defs)
  have h2: "global_TallyRecord demo_finalized 1 = Some ?t2"
    by (simp add: demo_defs op_defs)
  have f: "apply_tx 1 demo_started (1, 30, Finalize_tally 1 0 [72] [73]) = demo_finalized"
    by (simp add: demo_finalized_def)
  have r: "\<exists>tally1. global_TallyRecord (apply_tx 1 demo_started (1, 26, Record_result [81] 5 100)) 1
          = Some tally1 \<and> \<not> is_finalized tally1"
    using h1 by (simp add: apply_tx_def record_result_eq)
  note frozen = tally_state_invariant [OF h2, of "(1, 31, Record_result [81] 5 100)" ?ts
      1 "[81]" 5 100 33 0 1 "[74]" "[75]" 9]
  note opened = tally_state_invariant [OF h1, of "(1, 26, Record_result [81] 5 100)" "[]"
      1 "[81]" 5 100 30 1 0 "[72]" "[73]" 9]
  from frozen have "global_TallyRecord (run 1 demo_finalized ?ts) 1
        = global_TallyRecord demo_finalized 1"
    "record_result 1 demo_finalized 1 [81] 5 100 =
        Inl (ABORTED Tally_validator EALREADY_FINALIZED)"
    "finalize_tally 1 33 demo_finalized 1 0 1 [74] [75] =
        Inl (ABORTED Tally_validator EALREADY_FINALIZED)"
    using h2 by auto
  moreover from opened r have
    "\<exists>tally1. global_TallyRecord (apply_tx 1 demo_started (1, 26, Record_result [81] 5 100)) 1
          = Some tally1 \<and> \<not> is_finalized tally1 \<and> result_hash tally1 = []
          \<and> zkp_proof tally1 = []"
    by auto
  moreover have "\<exists>tally1. global_TallyRecord
          (apply_tx 1 demo_started (1, 30, Finalize_tally 1 0 [72] [73])) 1
          = Some tally1 \<and> is_finalized tally1 \<and> result_hash tally1 = [72]
          \<and> zkp_proof tally1 = [73]"
    using h2 f by simp
  ultimately show ?thesis
    using h2 by blast
qed

section \<open>Authorization\<close>

text \<open>
  The entry functions that compare the signer with the stored admin abort with their
  module's \<open>EUNAUTHORIZED\<close> for any other signer. The two updates of the bulletin board
  compare nothing and succeed for every signer.
\<close>

lemma encrypted_ballot_update_merkle_root_eq:
  "encrypted_ballot_update_merkle_root voting w admin_addr root =
     (case global_BallotBox w voting of
        None \<Rightarrow> Inl MISSING_DATA
      | Some box \<Rightarrow>
          if admin_addr \<noteq> eb_admin box then Inl (ABORTED Encrypted_ballot EB_EUNAUTHORIZED)
          else Inr (w\<lparr>global_BallotBox := (global_BallotBox w)(voting \<mapsto>
                        box\<lparr>merkle_root := root\<rparr>)\<rparr>))"
  by (simp add: encrypted_ballot_update_merkle_root_def)

lemma guarded_entry_functions:
  "global_Registry w voting = Some reg \<Longrightarrow> sender \<noteq> admin reg \<Longrightarrow>
     deactivate_voter voting w sender x = Inl (ABORTED Voter_registry EUNAUTHORIZED)"
  "global_BallotBox w voting = Some box \<Longrightarrow> sender \<noteq> eb_admin box \<Longrightarrow>
     encrypted_ballot_update_merkle_root voting w sender root =
       Inl (ABORTED Encrypted_ballot EB_EUNAUTHORIZED)"
  "global_TallyRecord w voting = Some tally \<Longrightarrow> sender \<noteq> tv_admin tally \<Longrightarrow>
     start_tally voting now w sender n = Inl (ABORTED Tally_validator TV_EUNAUTHORIZED)
     \<and> record_result voting w sender cid count pct =
         Inl (ABORTED Tally_validator TV_EUNAUTHORIZED)
     \<and> finalize_tally voting now w sender valid invalid rhash prf =
         Inl (ABORTED Tally_validator TV_EUNAUTHORIZED)"
  by (simp_all add: deactivate_voter_eq encrypted_ballot_update_merkle_root_eq start_tally_eq
      record_result_eq finalize_tally_eq)

lemma aborted_tx_commits_nothing: "execute voting w t = Inl e \<Longrightarrow> apply_tx voting w t = w"
  by (simp add: apply_tx_def)

lemma bulletin_board_updates_any_sender:
  "global_BulletinBoard w voting = Some board \<Longrightarrow>
     bulletin_board_update_merkle_root voting w sender root =
       Inr (w\<lparr>global_BulletinBoard := (global_BulletinBoard w)(voting \<mapsto>
              board\<lparr>bb_merkle_root := root\<rparr>)\<rparr>)"
  "global_BulletinBoard w voting = Some board \<Longrightarrow> records board tch = Some r \<Longrightarrow>
     update_merkle_proof voting w sender tch prf =
       Inr (w\<lparr>global_BulletinBoard := (global_BulletinBoard w)(voting \<mapsto>
              board\<lparr>records := (records board)(tch \<mapsto> r\<lparr>merkle_proof := prf\<rparr>)\<rparr>)\<rparr>)"
  by (simp_all add: bulletin_board_update_merkle_root_def update_merkle_proof_def table_defs)

text \<open>
  C4 at a concrete input. Address 1 initialises the board. Address 9 then replaces the
  board's merkle root, and replaces the merkle proof of a recorded vote; neither call
  aborts. The same signer's \<open>update_merkle_root\<close> on the ballot box aborts with
  \<open>EUNAUTHORIZED\<close>.
\<close>

theorem bulletin_board_admin_unchecked:
  "execute 1 genesis (1, 0, Bulletin_board_initialize [7]) \<noteq> Inl RESOURCE_ALREADY_EXISTS
   \<and> get_statistics 1 demo_init = Inr (0, [], [7])
   \<and> \<not> isl (execute 1 demo_init (9, 6, Bulletin_board_update_merkle_root [99]))
   \<and> get_statistics 1 (apply_tx 1 demo_init (9, 6, Bulletin_board_update_merkle_root [99])) =
        Inr (0, [99], [7])
   \<and> \<not> isl (execute 1 (apply_tx 1 demo_init (2, 12, Record_vote [61] [41]))
               (9, 13, Update_merkle_proof [61] [[98]]))
   \<and> map_option (\<lambda>b. map_option merkle_proof (records b [61]))
        (global_BulletinBoard
          (run 1 demo_init [(2, 12, Record_vote [61] [41]), (9, 13, Update_merkle_proof [61] [[98]])])
          1) = Some (Some [[98]])
   \<and> execute 1 demo_init (9, 6, Encrypted_ballot_update_merkle_root [99]) =
        Inl (ABORTED Encrypted_ballot EB_EUNAUTHORIZED)"
  by (simp add: demo_defs op_defs get_statistics_def genesis_def)

section \<open>Re-votes\<close>

text \<open>
  A successful \<open>cast_vote\<close> stores the new commitment at the tracking code in place of
  whatever the table held there: the write \<open>old_vote.is_final = false\<close> is overwritten by
  the \<open>upsert\<close> that follows it.
\<close>

lemma cast_vote_replaces:
  assumes "cast_vote voting now w voter epic vcommit vhash ipfs tch = Inr w'"
    and "global_BallotBox w voting = Some box"
  shows "\<exists>box'. global_BallotBox w' voting = Some box'
     \<and> votes box' = (votes box)(tch \<mapsto>
          \<lparr>voter_commitment = vcommit, vote_hash = vhash, ipfs_hash = ipfs,
           tracking_code_hash = tch, cast_at = now, is_final = True\<rparr>)"
  using cast_vote_InrD [OF assms(1)] assms(2) by auto

text \<open>
  C2 at a concrete input. Voter \<open>[1]\<close> casts vote hash \<open>[41]\<close> under code \<open>[61]\<close> at 12,
  the voted flag is reset, and the voter casts \<open>[42]\<close> under the same code at 15. Then
  \<open>verify_vote\<close> reports \<open>(true, [42], 15)\<close>, and the table of the ballot box holds the
  second commitment alone: the first one is gone, not kept with \<open>is_final = false\<close>.
\<close>

theorem revote_overwrites_commitment:
  "execute 1 demo_world (2, 12, Cast_vote [1] [31] [41] [51] [61]) = Inr demo_cast1
   \<and> verify_vote 1 demo_cast1 [61] = Inr (True, [41], 12)
   \<and> execute 1 demo_cast1 (2, 13, Reset_voted_status [1]) = Inr demo_reset
   \<and> execute 1 demo_reset (2, 15, Cast_vote [1] [31] [42] [52] [61]) = Inr demo_cast2
   \<and> verify_vote 1 demo_cast2 [61] = Inr (True, [42], 15)
   \<and> map_option votes (global_BallotBox demo_cast2 1) =
        Some [[61] \<mapsto> \<lparr>voter_commitment = [31], vote_hash = [42], ipfs_hash = [52],
                        tracking_code_hash = [61], cast_at = 15, is_final = True\<rparr>]"
  by (simp add: demo_defs op_defs verify_vote_def)

section \<open>The distinct-vote counter\<close>

text \<open>
  Every successful transaction keeps the ballot box published; only \<open>cast_vote\<close> changes
  its table, adding the tracking code to the keys, and the counter follows the number of
  keys.
\<close>

lemma ballot_execute:
  assumes "global_BallotBox w voting = Some box" and "execute voting w t = Inr w'"
  shows "\<exists>box'. global_BallotBox w' voting = Some box'
     \<and> dom (votes box') = dom (votes box) \<union> set (cast_code (snd (snd t)))
     \<and> (finite (dom (votes box)) \<and> unat (eb_vote_count box) = card (dom (votes box)) \<longrightarrow>
          unat (eb_vote_count box') = card (dom (votes box')))"
proof -
  obtain sender now c where t: "t = (sender, now, c)" by (cases t)
  show ?thesis
  proof (cases c)
    case (Cast_vote epic vcommit vhash ipfs tch)
    with assms(2) t have "cast_vote voting now w sender epic vcommit vhash ipfs tch = Inr w'"
      by simp
    from cast_vote_InrD [OF this] assms(1) obtain reg v where
      room: "votes box tch = None \<longrightarrow> unat (eb_vote_count box) + 1 < 2 ^ 64" and
      w': "w' = w\<lparr>global_BallotBox := (global_BallotBox w)(voting \<mapsto>
                box\<lparr>votes := (votes box)(tch \<mapsto>
                       \<lparr>voter_commitment = vcommit, vote_hash = vhash,
                        ipfs_hash = ipfs, tracking_code_hash = tch, cast_at = now,
                        is_final = True\<rparr>),
                     eb_vote_count := (if votes box tch = None
                        then eb_vote_count box + 1 else eb_vote_count box)\<rparr>),
              global_Registry := (global_Registry w)(voting \<mapsto>
                reg\<lparr>voters := (voters reg)(epic \<mapsto> v\<lparr>has_voted := True\<rparr>)\<rparr>),
              emitted := emitted w @
                (if votes box tch = None then [] else [VoteReplacedEvent tch now]) @
                [VotingEvent epic now, VoteCastEvent tch now]\<rparr>"
      by auto
    show ?thesis
    proof (cases "votes box tch")
      case None
      then have "tch \<notin> dom (votes box)" by auto
      then show ?thesis
        using None room by (simp add: w' t Cast_vote unat_succ_u64)
    next
      case (Some old)
      then have "insert tch (dom (votes box)) = dom (votes box)" by auto
      then show ?thesis
        using Some by (simp add: w' t Cast_vote)
    qed
  qed (use assms in \<open>auto simp: t op_defs start_tally_eq record_result_eq finalize_tally_eq
         record_vote_eq split: option.splits if_splits\<close>)
qed

lemma ballot_run:
  assumes "global_BallotBox w voting = Some box" and "finite (dom (votes box))"
    and "unat (eb_vote_count box) = card (dom (votes box))"
  shows "\<exists>box'. global_BallotBox (run voting w ts) voting = Some box'
     \<and> dom (votes box') = dom (votes box) \<union> set (successful_casts voting w ts)
     \<and> unat (eb_vote_count box') = card (dom (votes box'))"
  using assms
proof (induction ts arbitrary: w box)
  case Nil
  then show ?case by simp
next
  case (Cons t ts)
  show ?case
  proof (cases "execute voting w t")
    case (Inl e)
    with Cons.IH [OF Cons.prems] show ?thesis
      by (simp add: apply_tx_def)
  next
    case (Inr w1)
    from ballot_execute [OF Cons.prems(1) Inr] Cons.prems(2,3) obtain box1 where
      b1: "global_BallotBox w1 voting = Some box1"
      and d1: "dom (votes box1) = dom (votes box) \<union> set (cast_code (snd (snd t)))"
      and c1: "unat (eb_vote_count box1) = card (dom (votes box1))"
      by blast
    from d1 Cons.prems(2) have f1: "finite (dom (votes box1))"
      by simp
    from Cons.IH [OF b1 f1 c1] obtain box' where
      "global_BallotBox (run voting w1 ts) voting = Some box'"
      "dom (votes box') = dom (votes box1) \<union> set (successful_casts voting w1 ts)"
      "unat (eb_vote_count box') = card (dom (votes box'))"
      by blast
    then show ?thesis
      using Inr d1 by (auto simp: apply_tx_def)
  qed
qed

text \<open>
  C8. Starting from a ballot box with an empty table and counter 0, as
  \<open>initialize\<close> leaves it, after any trace of transactions \<open>get_vote_count\<close> returns the
  number of distinct tracking codes among the \<open>cast_vote\<close> transactions that succeeded,
  not the number of those transactions.
\<close>

theorem vote_count_distinct_codes:
  assumes "global_BallotBox w voting = Some box" and "votes box = Map.empty"
    and "eb_vote_count box = 0"
  shows "\<exists>n. get_vote_count voting (run voting w ts) = Inr n
     \<and> unat n = card (set (successful_casts voting w ts))"
proof -
  from assms(2,3) have "finite (dom (votes box))"
    and "unat (eb_vote_count box) = card (dom (votes box))"
    by simp_all
  from ballot_run [OF assms(1) this, of ts] assms(2) show ?thesis
    by (auto simp: get_vote_count_def)
qed

theorem vote_count_distinct_codes_witness:
  "global_BallotBox demo_world 1 =
     Some \<lparr>votes = Map.empty, eb_vote_count = 0, polling_start = 10, polling_end = 20,
           eb_admin = 1, merkle_root = []\<rparr>
   \<and> successful_casts 1 demo_world
        [(2, 12, Cast_vote [1] [31] [41] [51] [61]), (2, 13, Reset_voted_status [1]),
         (2, 15, Cast_vote [1] [31] [42] [52] [61]), (2, 16, Reset_voted_status [1]),
         (2, 17, Cast_vote [1] [31] [43] [53] [62]), (2, 18, Cast_vote [1] [31] [44] [54] [63])]
        = [[61], [61], [62]]
   \<and> card (set [[61], [61], [62 :: 8 word]]) = 2
   \<and> get_vote_count 1 (run 1 demo_world
        [(2, 12, Cast_vote [1] [31] [41] [51] [61]), (2, 13, Reset_voted_status [1]),
         (2, 15, Cast_vote [1] [31] [42] [52] [61]), (2, 16, Reset_voted_status [1]),
         (2, 17, Cast_vote [1] [31] [43] [53] [62]), (2, 18, Cast_vote [1] [31] [44] [54] [63])])
        = Inr 2"
proof -
  let ?box = "\<lparr>votes = Map.empty, eb_vote_count = 0, polling_start = 10, polling_end = 20,
           eb_admin = (1::address), merkle_root = []\<rparr>"
  let ?ts = "[(2, 12, Cast_vote [1] [31] [41] [51] [61]), (2, 13, Reset_voted_status [1]),
         (2, 15, Cast_vote [1] [31] [42] [52] [61]), (2, 16, Reset_voted_status [1]),
         (2, 17, Cast_vote [1] [31] [43] [53] [62]), (2, 18, Cast_vote [1] [31] [44] [54] [63])]"
  have h: "global_BallotBox demo_world 1 = Some ?box"
    by (simp add: demo_world_eq demo_init_eq)
  have codes: "successful_casts 1 demo_world ?ts = [[61], [61], [62]]"
    by (simp add: demo_world_eq demo_init_eq op_defs)
  have two: "card (set [[61], [61], [62 :: 8 word]]) = 2"
    by simp
  from vote_count_distinct_codes [OF h, of ?ts] codes two
  obtain n where n: "get_vote_count 1 (run 1 demo_world ?ts) = Inr n" and "unat n = 2"
    by auto
  then have "n = 2"
    by (simp add: word_unat_eq_iff)
  with n h codes two show ?thesis
    by simp
qed

end
